theory Spec2Isabelle
  imports Complex_Main "HOL-Library.Multiset"
begin

section \<open>Python values and string primitives\<close>

text \<open>
  The pipeline is Python. A spreadsheet cell reaches the cleaning functions either as a
  missing value (None / NaN, what \<^verbatim>\<open>pd.isna\<close> detects) or as a value that is turned into
  text by \<^verbatim>\<open>str(...)\<close>. Python floats that cannot be NaN are modelled by exact rationals;
  Python integers by \<open>nat\<close> or \<open>int\<close>.

  Characters are the code points 0..255 (Latin-1). The primitives below follow CPython on
  this range: \<^verbatim>\<open>str.isspace\<close>, the regular-expression classes \<^verbatim>\<open>\s\<close> and \<^verbatim>\<open>\d\<close>,
  \<^verbatim>\<open>str.isdigit\<close> (which also accepts the superscript digits U+00B2, U+00B3, U+00B9) and
  \<^verbatim>\<open>int(...)\<close> (which accepts decimal digits only). \<^verbatim>\<open>str.upper\<close> and \<^verbatim>\<open>str.lower\<close>
  are modelled on the ASCII letters; other code points are left as they are.
\<close>

datatype error = ValueError | ZeroDivisionError

datatype cell = Null | Str string

definition is_decimal :: "char \<Rightarrow> bool" where
  "is_decimal c \<longleftrightarrow> c \<in> set ''0123456789''"

definition isdigit_char :: "char \<Rightarrow> bool" where
  "isdigit_char c \<longleftrightarrow> is_decimal c \<or> c \<in> set [CHR 0xB2, CHR 0xB3, CHR 0xB9]"

definition is_space :: "char \<Rightarrow> bool" where
  "is_space c \<longleftrightarrow> c \<in> set [CHR 0x09, CHR 0x0A, CHR 0x0B, CHR 0x0C, CHR 0x0D,
                          CHR 0x1C, CHR 0x1D, CHR 0x1E, CHR 0x1F, CHR 0x20, CHR 0x85, CHR 0xA0]"

definition py_strip :: "string \<Rightarrow> string" where
  "py_strip s = rev (dropWhile is_space (rev (dropWhile is_space s)))"

definition py_isdigit :: "string \<Rightarrow> bool" where
  "py_isdigit s \<longleftrightarrow> s \<noteq> [] \<and> list_all isdigit_char s"

definition upper_char :: "char \<Rightarrow> char" where
  "upper_char c = (case map_of (zip ''abcdefghijklmnopqrstuvwxyz'' ''ABCDEFGHIJKLMNOPQRSTUVWXYZ'') c of
                     Some u \<Rightarrow> u | None \<Rightarrow> c)"

definition py_upper :: "string \<Rightarrow> string" where
  "py_upper s = map upper_char s"

definition lower_char :: "char \<Rightarrow> char" where
  "lower_char c = (case map_of (zip ''ABCDEFGHIJKLMNOPQRSTUVWXYZ'' ''abcdefghijklmnopqrstuvwxyz'') c of
                     Some l \<Rightarrow> l | None \<Rightarrow> c)"

definition py_lower :: "string \<Rightarrow> string" where
  "py_lower s = map lower_char s"

text \<open>\<^verbatim>\<open>s.startswith(p)\<close> and the substring test \<^verbatim>\<open>sub in s\<close>.\<close>

fun starts_with :: "string \<Rightarrow> string \<Rightarrow> bool" where
  "starts_with [] s = True"
| "starts_with (p # ps) [] = False"
| "starts_with (p # ps) (c # cs) = (p = c \<and> starts_with ps cs)"

fun contains :: "string \<Rightarrow> string \<Rightarrow> bool" where
  "contains sub [] = (sub = [])"
| "contains sub (c # cs) = (starts_with sub (c # cs) \<or> contains sub cs)"

text \<open>
  \<^verbatim>\<open>int(s)\<close> for a text without sign, underscore or surrounding blanks, which is all its
  callers here pass: the value of a non-empty run of decimal digits, ValueError otherwise.
\<close>

definition digit_value :: "char \<Rightarrow> nat" where
  "digit_value c = (case map_of (zip ''0123456789'' [0, 1, 2, 3, 4, 5, 6, 7, 8, 9]) c of
                      Some d \<Rightarrow> d | None \<Rightarrow> 0)"

definition digits_to_nat :: "string \<Rightarrow> nat" where
  "digits_to_nat s = foldl (\<lambda>n c. 10 * n + digit_value c) 0 s"

definition py_int :: "string \<Rightarrow> error + nat" where
  "py_int s = (if s \<noteq> [] \<and> list_all is_decimal s then Inr (digits_to_nat s) else Inl ValueError)"

section \<open>Field normalizer (cvo\_nbo\_advanced\_v4\_2.py)\<close>

subsection \<open>Bandwidth\<close>

text \<open>
  \<^verbatim>\<open>re.search(r'(\d+)\s*(MBPS|GBPS)', bw)\<close>: the leftmost position from which a run of
  decimal digits (taken greedily), then blanks, then one of the two units can be read.
  Giving back digits cannot help the match, because the character after a shorter run is
  again a digit. The result is group 1 and group 2.
\<close>

fun search_bw :: "string \<Rightarrow> (string \<times> string) option" where
  "search_bw [] = None"
| "search_bw (c # cs) =
     (if is_decimal c then
        (let ds = takeWhile is_decimal (c # cs);
             rest = dropWhile is_space (dropWhile is_decimal (c # cs))
         in if starts_with ''MBPS'' rest then Some (ds, ''MBPS'')
            else if starts_with ''GBPS'' rest then Some (ds, ''GBPS'')
            else search_bw cs)
      else search_bw cs)"

definition parse_bandwidth_smart :: "cell \<Rightarrow> error + (nat \<times> string)" where
  "parse_bandwidth_smart bandwidth_str =
     (case bandwidth_str of
        Null \<Rightarrow> Inr (0, ''Non-Connectivity'')
      | Str s \<Rightarrow>
          if s = ''Tidak Ada'' then Inr (0, ''Non-Connectivity'')
          else
            (let bw = py_strip (py_upper s) in
             if contains ''IP'' bw \<and> \<not> contains ''MBPS'' bw \<and> \<not> contains ''GBPS'' bw
             then Inr (0, ''IP-Only'')
             else
               (case search_bw bw of
                  Some (ds, unit) \<Rightarrow>
                    (case py_int ds of
                       Inl e \<Rightarrow> Inl e
                     | Inr number \<Rightarrow>
                         if unit = ''GBPS'' then Inr (number * 1000, ''Connectivity'')
                         else Inr (number, ''Connectivity''))
                | None \<Rightarrow>
                    if contains ''E1'' bw then Inr (2, ''Connectivity'')
                    else if py_isdigit bw then
                      (case py_int bw of
                         Inl e \<Rightarrow> Inl e
                       | Inr number \<Rightarrow> Inr (number, ''Connectivity''))
                    else Inr (0, ''Unknown''))))"

subsection \<open>Tenure\<close>

text \<open>
  \<^verbatim>\<open>re.match(r"^'\d+'$", s)\<close> on a stripped text (so no newline can end it): a quote, at
  least one decimal digit, a quote. \<^verbatim>\<open>s.strip("'")\<close> removes the quotes at both ends.
  \<^verbatim>\<open>re.search(r'\d+', s)\<close> is the first maximal run of decimal digits.
\<close>

definition quoted_number :: "string \<Rightarrow> bool" where
  "quoted_number s \<longleftrightarrow>
     (case s of
        [] \<Rightarrow> False
      | q # rest \<Rightarrow> q = CHR 0x27 \<and> rest \<noteq> [] \<and> last rest = CHR 0x27 \<and>
                   butlast rest \<noteq> [] \<and> list_all is_decimal (butlast rest))"

definition strip_quotes :: "string \<Rightarrow> string" where
  "strip_quotes s = rev (dropWhile (\<lambda>c. c = CHR 0x27) (rev (dropWhile (\<lambda>c. c = CHR 0x27) s)))"

definition first_number :: "string \<Rightarrow> string option" where
  "first_number s =
     (let t = dropWhile (\<lambda>c. \<not> is_decimal c) s
      in if t = [] then None else Some (takeWhile is_decimal t))"

definition clean_tenure_smart :: "cell \<Rightarrow> error + nat" where
  "clean_tenure_smart tenure_value =
     (case tenure_value of
        Null \<Rightarrow> Inr 3
      | Str s \<Rightarrow>
          (let tenure_str = py_strip s in
           if py_isdigit tenure_str then
             (case py_int tenure_str of Inl e \<Rightarrow> Inl e | Inr years \<Rightarrow> Inr (min years 26))
           else if quoted_number tenure_str then
             (case py_int (strip_quotes tenure_str) of
                Inl e \<Rightarrow> Inl e | Inr years \<Rightarrow> Inr (min years 26))
           else if contains ''Berkontrak'' tenure_str then Inr 0
           else if contains ''Tidak Valid'' tenure_str \<or> contains ''Invalid'' tenure_str then Inr 3
           else
             (case first_number tenure_str of
                Some ds \<Rightarrow> (case py_int ds of Inl e \<Rightarrow> Inl e | Inr n \<Rightarrow> Inr (min n 26))
              | None \<Rightarrow> Inr 3)))"

section \<open>Co-occurrence index (cvo\_nbo\_advanced\_v4\_2.py)\<close>

text \<open>
  \<^verbatim>\<open>co_occurrence\<close> is a \<^verbatim>\<open>defaultdict\<close> of \<^verbatim>\<open>defaultdict(int)\<close>: a dictionary from a
  product to a dictionary from a product to a count. \<open>incr co p1 p2\<close> is
  \<^verbatim>\<open>co[p1][p2] += 1\<close>, which creates the missing entries with the default 0.
  \<open>build_cooccurrence_matrix\<close> takes the product lists of the companies, one list per
  company, as \<^verbatim>\<open>groupby('Row Labels')['ProdukBaru'].apply(list)\<close> yields them (one element
  per row of the company, repeated products included). The function also returns a
  \<^verbatim>\<open>Counter\<close> of the products, which no caller reads for scoring; it is left out.
\<close>

type_synonym cooc = "string \<rightharpoonup> (string \<rightharpoonup> nat)"

definition incr :: "cooc \<Rightarrow> string \<Rightarrow> string \<Rightarrow> cooc" where
  "incr co p1 p2 =
     (let inner = (case co p1 of None \<Rightarrow> Map.empty | Some m \<Rightarrow> m);
          cnt = (case inner p2 of None \<Rightarrow> 0 | Some n \<Rightarrow> n)
      in co(p1 \<mapsto> inner(p2 \<mapsto> cnt + 1)))"

text \<open>The inner loop \<^verbatim>\<open>for p2 in products[i+1:]\<close> and the outer loop over \<^verbatim>\<open>enumerate(products)\<close>.\<close>

fun count_with :: "string \<Rightarrow> string list \<Rightarrow> cooc \<Rightarrow> cooc" where
  "count_with p1 [] co = co"
| "count_with p1 (p2 # rest) co = count_with p1 rest (incr (incr co p1 p2) p2 p1)"

fun count_pairs :: "string list \<Rightarrow> cooc \<Rightarrow> cooc" where
  "count_pairs [] co = co"
| "count_pairs (p1 # rest) co = count_pairs rest (count_with p1 rest co)"

definition build_cooccurrence_matrix :: "string list list \<Rightarrow> cooc" where
  "build_cooccurrence_matrix company_products = fold count_pairs company_products Map.empty"

text \<open>Reading \<^verbatim>\<open>co[a][b]\<close>: the stored count, 0 where nothing was stored.\<close>

definition cooccurrence :: "cooc \<Rightarrow> string \<Rightarrow> string \<Rightarrow> nat" where
  "cooccurrence co a b =
     (case co a of None \<Rightarrow> 0 | Some m \<Rightarrow> (case m b of None \<Rightarrow> 0 | Some n \<Rightarrow> n))"

text \<open>
  \<^verbatim>\<open>get_cooccurrence_boost\<close>: the division \<^verbatim>\<open>count / total_companies\<close> raises
  ZeroDivisionError when \<^verbatim>\<open>total_companies\<close> is 0.
\<close>

fun boost_loop :: "string list \<Rightarrow> string \<Rightarrow> cooc \<Rightarrow> nat \<Rightarrow> rat \<Rightarrow> error + rat" where
  "boost_loop [] candidate_product co total_companies boost = Inr boost"
| "boost_loop (current_product # rest) candidate_product co total_companies boost =
     (case co current_product of
        None \<Rightarrow> boost_loop rest candidate_product co total_companies boost
      | Some m \<Rightarrow>
          (case m candidate_product of
             None \<Rightarrow> boost_loop rest candidate_product co total_companies boost
           | Some cnt \<Rightarrow>
               if total_companies = 0 then Inl ZeroDivisionError
               else boost_loop rest candidate_product co total_companies
                      (boost + (of_nat cnt / of_nat total_companies) * 20)))"

definition get_cooccurrence_boost :: "string list \<Rightarrow> string \<Rightarrow> cooc \<Rightarrow> nat \<Rightarrow> error + rat" where
  "get_cooccurrence_boost company_products candidate_product co total_companies =
     (case boost_loop company_products candidate_product co total_companies 0 of
        Inl e \<Rightarrow> Inl e
      | Inr boost \<Rightarrow> Inr (min boost 20))"

section \<open>NBO scoring engine (cvo\_nbo\_advanced\_v4\_2.py)\<close>

text \<open>
  The company and product dictionaries, with the keys the scoring function reads.
  \<^verbatim>\<open>current_products\<close> and \<^verbatim>\<open>tags\<close> are read with \<^verbatim>\<open>.get(key, [])\<close>, so the key may be
  absent (\<open>None\<close>). \<^verbatim>\<open>revenue\<close> is a sum and \<^verbatim>\<open>bandwidth_clean\<close> holds a maximum of parsed
  values, so neither is NaN.
\<close>

record company =
  tier :: string
  category :: string
  bandwidth_clean :: "rat \<times> string"
  industry :: string
  current_products :: "string list option"
  revenue :: rat
  tenure_clean :: int

record product =
  product_name :: string
  product_category :: string
  tier_level :: int
  cost_tier :: int
  min_bandwidth :: rat
  complexity :: string
  target_industries :: "string list"
  tags :: "string list option"

definition TIER_LEVELS :: "string \<rightharpoonup> int" where
  "TIER_LEVELS = map_of [(''DI-TS'', 1), (''DI-SDS-TS'', 2), (''DI-SDS-SDS'', 3),
                         (''ALL NOMENKLATUR'', 4)]"

text \<open>The argument of \<open>categorize_arpu_realistic\<close> is \<open>None\<close> for NaN.\<close>

definition categorize_arpu_realistic :: "rat option \<Rightarrow> string \<times> int" where
  "categorize_arpu_realistic revenue_value =
     (case revenue_value of
        None \<Rightarrow> (''Bundled/Free'', 0)
      | Some r \<Rightarrow>
          if r = 0 then (''Bundled/Free'', 0)
          else if r < 1000000 then (''Entry'', 1)
          else if r < 3500000 then (''Mid'', 2)
          else if r < 15000000 then (''High'', 3)
          else (''Enterprise'', 4))"

text \<open>
  The function adds eight contributions to \<^verbatim>\<open>score\<close>, one block per factor, and returns
  \<^verbatim>\<open>min(score, 100)\<close>. Each block is a function here.
\<close>

definition factor_tier :: "company \<Rightarrow> product \<Rightarrow> rat" where
  "factor_tier c p =
     (let company_tier_level = (case TIER_LEVELS (tier c) of Some l \<Rightarrow> l | None \<Rightarrow> 2);
          tier_diff = tier_level p - company_tier_level
      in if tier_diff = 0 then 15
         else if tier_diff = 1 then 12
         else if tier_diff = 2 then 8
         else 3)"

definition factor_category :: "company \<Rightarrow> product \<Rightarrow> rat" where
  "factor_category c p =
     (if product_category p = category c then 15
      else if product_category p \<in> set [''Technology Services'', ''Digital Infrastructure'']
              \<and> category c \<in> set [''Technology Services'', ''Digital Infrastructure'']
      then 10
      else 5)"

definition factor_bandwidth :: "company \<Rightarrow> product \<Rightarrow> rat" where
  "factor_bandwidth c p =
     (let company_bw = fst (bandwidth_clean c);
          bw_type = snd (bandwidth_clean c);
          product_min_bw = min_bandwidth p
      in if bw_type = ''IP-Only'' then
           (if product_category p = ''Connectivity'' then 15
            else if product_min_bw = 0 then 15
            else 5)
         else if product_min_bw = 0 then 15
         else if company_bw \<ge> product_min_bw * (3 / 2) then 15
         else if company_bw \<ge> product_min_bw then 10
         else if company_bw \<ge> product_min_bw * (1 / 2) then 5
         else 2)"

definition factor_industry :: "company \<Rightarrow> product \<Rightarrow> rat" where
  "factor_industry c p =
     (if target_industries p \<noteq> [] \<and> industry c \<in> set (target_industries p) then 15
      else if industry c \<in> set [''BANKING & FINANCIAL'', ''GOVERNMENT'']
              \<and> contains ''Security'' (product_name p) then 12
      else if industry c \<in> set [''MANUFACTURE''] \<and> contains ''IoT'' (product_name p) then 12
      else 5)"

definition factor_cooccurrence :: "company \<Rightarrow> product \<Rightarrow> cooc \<Rightarrow> nat \<Rightarrow> error + rat" where
  "factor_cooccurrence c p co total_companies =
     (let cps = (case current_products c of None \<Rightarrow> [] | Some ps \<Rightarrow> ps)
      in if cps \<noteq> [] then
           (case get_cooccurrence_boost cps (product_name p) co total_companies of
              Inl e \<Rightarrow> Inl e
            | Inr boost \<Rightarrow> Inr (min boost 10))
         else Inr 5)"

definition factor_regional :: rat where
  "factor_regional = 5"

definition factor_affordability :: "company \<Rightarrow> product \<Rightarrow> rat" where
  "factor_affordability c p =
     (let company_arpu_level = snd (categorize_arpu_realistic (Some (revenue c)));
          product_cost_level = cost_tier p
      in if revenue c = 0 then (if product_cost_level = 1 then 8 else 3)
         else
           (let tier_diff = product_cost_level - company_arpu_level
            in if tier_diff = 0 then 15
               else if tier_diff = 1 then 12
               else if tier_diff = 2 then 7
               else 2))"

definition factor_tenure :: "company \<Rightarrow> product \<Rightarrow> rat" where
  "factor_tenure c p =
     (let tenure = tenure_clean c;
          cx = complexity p
      in if tenure = 0 then
           (if cx = ''Simple'' then 10 else 3)
           + (if ''Retention'' \<in> set (case tags p of None \<Rightarrow> [] | Some ts \<Rightarrow> ts) then 5 else 0)
         else if (of_int tenure :: rat) < 1 / 2 then (if cx = ''Simple'' then 10 else 3)
         else if tenure < 2 then (if cx \<in> set [''Simple'', ''Medium''] then 10 else 6)
         else if tenure \<le> 5 then 10
         else (if cx \<in> set [''Medium'', ''Complex''] then 10 else 7))"

definition calculate_nbo_score_v4_2 :: "company \<Rightarrow> product \<Rightarrow> cooc \<Rightarrow> nat \<Rightarrow> error + rat" where
  "calculate_nbo_score_v4_2 c p co total_companies =
     (case factor_cooccurrence c p co total_companies of
        Inl e \<Rightarrow> Inl e
      | Inr f5 \<Rightarrow>
          Inr (min (factor_tier c p + factor_category c p + factor_bandwidth c p
                    + factor_industry c p + f5 + factor_regional
                    + factor_affordability c p + factor_tenure c p) 100))"

definition assign_strategy :: "company \<Rightarrow> string \<times> string" where
  "assign_strategy c =
     (let rev_threshold = 3500000;
          bw_threshold = 10;
          bandwidth = fst (bandwidth_clean c)
      in if revenue c \<ge> rev_threshold \<and> bandwidth \<ge> bw_threshold then (''Star'', ''RETAIN'')
         else if revenue c \<ge> rev_threshold \<and> bandwidth < bw_threshold then (''Risk'', ''CROSS-SELL'')
         else if revenue c < rev_threshold \<and> bandwidth \<ge> bw_threshold then (''Sniper'', ''UPSELL'')
         else (''Incubator'', ''AUTOMATE''))"

subsection \<open>The product catalog\<close>

text \<open>
  The products that are scored are the dictionaries that \<open>process_data\<close> builds from the
  rows of the catalog (step 4), from the texts of the columns \<^verbatim>\<open>Produk\<close>,
  \<^verbatim>\<open>Kategori Produk\<close> and \<^verbatim>\<open>Nomenklatur Baru\<close>: tier level and cost tier are both
  \<open>estimate_cost_tier\<close> of the nomenklatur, the minimum bandwidth is 0, the list of target
  industries is empty and there is no key \<^verbatim>\<open>tags\<close>. (The keys \<^verbatim>\<open>nomenklatur\<close> and
  \<^verbatim>\<open>tier\<close>, which the scoring function does not read, are left out.)
  \<open>infer_product_complexity\<close> walks \<^verbatim>\<open>COMPLEXITY_KEYWORDS\<close> in the order it is written.
\<close>

definition COMPLEXITY_KEYWORDS :: "(string \<times> string list) list" where
  "COMPLEXITY_KEYWORDS =
     [(''Simple'', [''basic'', ''starter'', ''light'', ''essential'', ''entry'', ''bronze'']),
      (''Medium'', [''standard'', ''professional'', ''plus'', ''advanced'', ''silver'', ''medium'']),
      (''Complex'', [''enterprise'', ''premium'', ''ultimate'', ''managed'', ''gold'', ''platinum'',
                     ''deluxe''])]"

definition infer_product_complexity :: "string \<Rightarrow> string" where
  "infer_product_complexity name_text =
     (let name_lower = py_lower name_text
      in case find (\<lambda>entry. list_ex (\<lambda>kw. contains kw name_lower) (snd entry)) COMPLEXITY_KEYWORDS of
           Some entry \<Rightarrow> fst entry
         | None \<Rightarrow> ''Medium'')"

definition estimate_cost_tier :: "string \<Rightarrow> int" where
  "estimate_cost_tier nomenklatur =
     (let nom = py_upper nomenklatur
      in if list_ex (\<lambda>x. contains x nom) [''DI-TS''] then 1
         else if list_ex (\<lambda>x. contains x nom) [''DI-SDS-TS''] then 2
         else if list_ex (\<lambda>x. contains x nom) [''DI-SDS-SDS''] then 3
         else 2)"

definition catalog_product :: "string \<Rightarrow> string \<Rightarrow> string \<Rightarrow> product" where
  "catalog_product produk kategori_produk nomenklatur_baru =
     \<lparr>product_name = produk,
      product_category = kategori_produk,
      tier_level = estimate_cost_tier nomenklatur_baru,
      cost_tier = estimate_cost_tier nomenklatur_baru,
      min_bandwidth = 0,
      complexity = infer_product_complexity produk,
      target_industries = [],
      tags = None\<rparr>"

section \<open>Segmentation, thresholds and quadrants (cvo\_ml\_indonesia\_v21.py)\<close>

text \<open>
  One row of the customer frame, with the columns the functions below read or write.
  \<open>kategori\<close> is the product-category column after \<^verbatim>\<open>astype(str)\<close>; revenue and bandwidth
  were cleaned with \<^verbatim>\<open>fillna(0)\<close> and \<^verbatim>\<open>convert_bw\<close>, so they are never NaN.
\<close>

record pelanggan =
  kategori :: string
  pendapatan :: rat
  bandwidth_mbps :: rat
  cluster_bandwidth :: string
  exclude_upsell :: int
  exclude_reason :: string
  skor_peluang_upsell :: rat
  skor_peluang_crosssell :: rat

definition klasifikasi_produk :: "string \<Rightarrow> string" where
  "klasifikasi_produk tipe_raw =
     (let tipe = py_upper tipe_raw
      in if list_ex (\<lambda>x. contains x tipe) [''METRO'', ''NETWORK'', ''BACKBONE'', ''ISP'', ''TRANSMISI'']
         then ''HIGH_BANDWIDTH_GROUP''
         else if list_ex (\<lambda>x. contains x tipe) [''VPN'', ''ATM'', ''IPVPN'', ''UMKM'', ''MIKRO'', ''KRENO'']
         then ''LOW_BANDWIDTH_GROUP''
         else ''MID_BANDWIDTH_GROUP'')"

definition klasifikasi_bandwidth :: "rat \<Rightarrow> string" where
  "klasifikasi_bandwidth bw =
     (if bw = 0 then ''TIDAK_DIKETAHUI''
      else if bw < 10 then ''LOW_BANDWIDTH_GROUP''
      else if bw \<le> 100 then ''LOW_BANDWIDTH_GROUP''
      else if bw \<le> 500 then ''MID_BANDWIDTH_GROUP''
      else ''HIGH_BANDWIDTH_GROUP'')"

text \<open>
  \<open>segment_customers\<close>: the cluster comes from the product category when the frame has such
  a column (\<open>has_kategori\<close>), from the bandwidth otherwise; then the two exclusion masks are
  applied, in the order of the source.
\<close>

definition segment_row :: "bool \<Rightarrow> pelanggan \<Rightarrow> pelanggan" where
  "segment_row has_kategori r =
     (let r1 = r\<lparr>cluster_bandwidth :=
                  (if has_kategori then klasifikasi_produk (kategori r)
                   else klasifikasi_bandwidth (bandwidth_mbps r))\<rparr>;
          r2 = r1\<lparr>exclude_upsell := 0, exclude_reason := []\<rparr>;
          mask_atm = (cluster_bandwidth r2 = ''LOW_BANDWIDTH_GROUP'' \<and> bandwidth_mbps r2 < 1);
          r3 = (if mask_atm
                then r2\<lparr>exclude_upsell := 1,
                        exclude_reason := ''ATM/IoT - Tidak butuh upsell broadband''\<rparr>
                else r2);
          mask_backbone = (cluster_bandwidth r3 = ''HIGH_BANDWIDTH_GROUP'' \<and> bandwidth_mbps r3 > 5000)
      in if mask_backbone
         then r3\<lparr>exclude_upsell := 1, exclude_reason := ''Backbone/ISP - Sudah optimal''\<rparr>
         else r3)"

definition segment_customers :: "bool \<Rightarrow> pelanggan list \<Rightarrow> pelanggan list" where
  "segment_customers has_kategori df = map (segment_row has_kategori) df"

text \<open>
  \<open>generate_predictions\<close>: the two classifiers are external; each is a function from the
  row to a probability, or absent (\<open>None\<close>) when it was not trained. Excluded customers
  then get the upsell score 0 and half their cross-sell score.
\<close>

definition predict_row ::
  "(pelanggan \<Rightarrow> rat) option \<Rightarrow> (pelanggan \<Rightarrow> rat) option \<Rightarrow> pelanggan \<Rightarrow> pelanggan" where
  "predict_row upsell_model crosssell_model r =
     (let r1 = r\<lparr>skor_peluang_upsell := (case upsell_model of Some f \<Rightarrow> f r | None \<Rightarrow> 0)\<rparr>;
          r2 = r1\<lparr>skor_peluang_crosssell := (case crosssell_model of Some f \<Rightarrow> f r | None \<Rightarrow> 0)\<rparr>;
          r3 = (if exclude_upsell r2 = 1 then r2\<lparr>skor_peluang_upsell := 0\<rparr> else r2)
      in if exclude_upsell r3 = 1
         then r3\<lparr>skor_peluang_crosssell := skor_peluang_crosssell r3 * (1 / 2)\<rparr>
         else r3)"

definition generate_predictions ::
  "(pelanggan \<Rightarrow> rat) option \<Rightarrow> (pelanggan \<Rightarrow> rat) option \<Rightarrow> pelanggan list \<Rightarrow> pelanggan list" where
  "generate_predictions upsell_model crosssell_model df =
     map (predict_row upsell_model crosssell_model) df"

subsection \<open>Statistics of a column\<close>

text \<open>
  A pandas statistic is a float that is NaN on an empty column: \<open>None\<close> stands for NaN.
  \<^verbatim>\<open>median\<close> is the middle of the sorted values, or the mean of the two middle ones;
  \<^verbatim>\<open>quantile(q)\<close> interpolates linearly between the two sorted values around position
  \<open>q * (n - 1)\<close>; \<^verbatim>\<open>mean\<close> is the sum over the count. A comparison with NaN is false.
\<close>

type_synonym pyfloat = "rat option"

definition median :: "rat list \<Rightarrow> pyfloat" where
  "median xs =
     (let s = sort xs; n = length s
      in if n = 0 then None
         else if odd n then Some (s ! (n div 2))
         else Some ((s ! (n div 2 - 1) + s ! (n div 2)) / 2))"

definition quantile :: "rat \<Rightarrow> rat list \<Rightarrow> pyfloat" where
  "quantile q xs =
     (let s = sort xs; n = length s
      in if n = 0 then None
         else
           (let pos = q * of_nat (n - 1);
                lo = nat \<lfloor>pos\<rfloor>;
                frac = pos - of_nat lo
            in if lo + 1 < n then Some (s ! lo + frac * (s ! (lo + 1) - s ! lo))
               else Some (s ! (n - 1))))"

definition mean :: "rat list \<Rightarrow> pyfloat" where
  "mean xs = (if xs = [] then None else Some (sum_list xs / of_nat (length xs)))"

definition ge_float :: "rat \<Rightarrow> pyfloat \<Rightarrow> bool" where
  "ge_float x t = (case t of None \<Rightarrow> False | Some m \<Rightarrow> x \<ge> m)"

text \<open>\<^verbatim>\<open>Series.unique()\<close>: the distinct values in order of first appearance.\<close>

definition unique :: "'a list \<Rightarrow> 'a list" where
  "unique xs = rev (remdups (rev xs))"

subsection \<open>Per-cluster thresholds and the revenue/bandwidth matrix\<close>

record thresholds =
  median_pendapatan :: pyfloat
  median_bandwidth :: pyfloat
  q75_bandwidth :: pyfloat
  q25_pendapatan :: pyfloat
  avg_pendapatan :: pyfloat

definition threshold_bundle :: "pelanggan list \<Rightarrow> thresholds" where
  "threshold_bundle cluster_data =
     \<lparr>median_pendapatan = median (map pendapatan cluster_data),
      median_bandwidth = median (map bandwidth_mbps cluster_data),
      q75_bandwidth = quantile (3 / 4) (map bandwidth_mbps cluster_data),
      q25_pendapatan = quantile (1 / 4) (map pendapatan cluster_data),
      avg_pendapatan = mean (map pendapatan cluster_data)\<rparr>"

text \<open>The loop \<^verbatim>\<open>for cluster in df['cluster_bandwidth'].unique()\<close> of \<open>create_strategic_matrices\<close>.\<close>

definition threshold_step ::
  "pelanggan list \<Rightarrow> string \<Rightarrow> (string \<rightharpoonup> thresholds) \<Rightarrow> (string \<rightharpoonup> thresholds)" where
  "threshold_step df cluster th =
     (if cluster = ''TIDAK_DIKETAHUI'' then th
      else
        (let cluster_data = filter (\<lambda>r. cluster_bandwidth r = cluster) df
         in if length cluster_data = 0 then th
            else th(cluster \<mapsto> threshold_bundle cluster_data)))"

definition cluster_thresholds :: "pelanggan list \<Rightarrow> (string \<rightharpoonup> thresholds)" where
  "cluster_thresholds df = fold (threshold_step df) (unique (map cluster_bandwidth df)) Map.empty"

text \<open>
  \<open>klasifikasi_bw\<close>, the classifier of matrix 1. The labels are the source's labels without
  their leading emoji; the twelve names are pairwise different without it.
\<close>

definition klasifikasi_bw :: "(string \<rightharpoonup> thresholds) \<Rightarrow> pelanggan \<Rightarrow> string \<times> string" where
  "klasifikasi_bw th row =
     (let cluster = cluster_bandwidth row in
      case (if cluster = ''TIDAK_DIKETAHUI'' then None else th cluster) of
        None \<Rightarrow> (''BELUM_TERKATEGORI'', ''PERLU_ANALISIS - Data tidak lengkap'')
      | Some thresh \<Rightarrow>
          (let pendapatan_tinggi = ge_float (pendapatan row) (median_pendapatan thresh);
               bandwidth_tinggi = ge_float (bandwidth_mbps row) (median_bandwidth thresh)
           in if exclude_upsell row = 1 then (''DIKECUALIKAN'', exclude_reason row)
              else if cluster = ''LOW_BANDWIDTH_GROUP'' then
                (if pendapatan_tinggi
                 then (''UMKM_POTENSIAL'', ''CROSS-SELL - Solusi Digital UMKM (Wifi, Cloud)'')
                 else (''UMKM_PEMULA'', ''EDUKASI - Digitalisasi Bisnis''))
              else if cluster = ''HIGH_BANDWIDTH_GROUP'' then
                (if pendapatan_tinggi \<and> bandwidth_tinggi
                 then (''ENTERPRISE_BINTANG'', ''PERTAHANKAN - Kontrak Jangka Panjang & SLA'')
                 else if pendapatan_tinggi
                 then (''BACKBONE_OPTIMAL'', ''CROSS-SELL - Managed Services & Security'')
                 else if bandwidth_tinggi
                 then (''ISP_POTENSI'', ''RENEGOSIASI - Harga Kompetitif & Bundling'')
                 else (''ENTERPRISE_BARU'', ''KONSTRUKSI - Bangun Relasi & Trust''))
              else
                (if pendapatan_tinggi \<and> bandwidth_tinggi
                 then (''PELANGGAN_BINTANG'', ''PERTAHANKAN - Layanan Premium & Dedicated Support'')
                 else if pendapatan_tinggi \<and> \<not> bandwidth_tinggi
                 then (''AREA_RISIKO'', ''CROSS-SELL - Smart Home, PV Rooftop, EV Charging'')
                 else if \<not> pendapatan_tinggi \<and> bandwidth_tinggi
                 then (''ZONA_SNIPER'', ''UPSELL - Upgrade Bandwidth + Managed Services'')
                 else (''INKUBATOR'', ''EDUKASI - Demo Produk & Onboarding''))))"

section \<open>Thresholds and classifier of cvo\_nbo\_v30.py\<close>

record pelanggan30 =
  bandwidth_cluster :: string
  pendapatan30 :: rat
  bandwidth_mbps30 :: rat

record thresholds30 =
  median_pendapatan30 :: pyfloat
  median_bandwidth30 :: pyfloat
  q75_pendapatan30 :: pyfloat
  q25_pendapatan30 :: pyfloat

definition threshold_bundle30 :: "pelanggan30 list \<Rightarrow> thresholds30" where
  "threshold_bundle30 cluster_data =
     \<lparr>median_pendapatan30 = median (map pendapatan30 cluster_data),
      median_bandwidth30 = median (map bandwidth_mbps30 cluster_data),
      q75_pendapatan30 = quantile (3 / 4) (map pendapatan30 cluster_data),
      q25_pendapatan30 = quantile (1 / 4) (map pendapatan30 cluster_data)\<rparr>"

definition threshold_step30 ::
  "pelanggan30 list \<Rightarrow> string \<Rightarrow> (string \<rightharpoonup> thresholds30) \<Rightarrow> (string \<rightharpoonup> thresholds30)" where
  "threshold_step30 df cluster th =
     (let cluster_data = filter (\<lambda>r. bandwidth_cluster r = cluster) df
      in if length cluster_data > 0 then th(cluster \<mapsto> threshold_bundle30 cluster_data) else th)"

definition cluster_thresholds30 :: "pelanggan30 list \<Rightarrow> (string \<rightharpoonup> thresholds30)" where
  "cluster_thresholds30 df = fold (threshold_step30 df) (unique (map bandwidth_cluster df)) Map.empty"

text \<open>
  The classifier of \<open>create_strategic_matrices\<close> in cvo\_nbo\_v30.py. In the source,
  \<^verbatim>\<open>classify_customer(row)\<close> is a local function that closes over the dictionary
  \<^verbatim>\<open>cluster_thresholds\<close> computed just before from the same frame, and it is applied to
  the rows of that frame with \<^verbatim>\<open>df.apply(classify_customer, axis=1)\<close>; the model keeps it
  local. \<^verbatim>\<open>thresh = cluster_thresholds.get(cluster, {})\<close> is the entry or the empty
  dictionary (\<open>None\<close>), and \<^verbatim>\<open>thresh.get('median_pendapatan', 0)\<close> reads 0 from the
  empty dictionary. The result is the list of (kuadran, strategi), one per row.
\<close>

definition create_strategic_matrices30 :: "pelanggan30 list \<Rightarrow> (string \<times> string) list" where
  "create_strategic_matrices30 df =
     (let cluster_thresholds = cluster_thresholds30 df;
          classify_customer = (\<lambda>row.
            let cluster = bandwidth_cluster row;
                thresh = cluster_thresholds cluster;
                thresh_median_pendapatan =
                  (case thresh of None \<Rightarrow> Some 0 | Some t \<Rightarrow> median_pendapatan30 t);
                thresh_median_bandwidth =
                  (case thresh of None \<Rightarrow> Some 0 | Some t \<Rightarrow> median_bandwidth30 t)
            in
            if cluster = ''NO_BANDWIDTH'' then
              (if ge_float (pendapatan30 row) thresh_median_pendapatan
               then (''[TARGET] NON-BW HIGH VALUE'', ''CROSS-SELL - Add Connectivity or Digital Solutions'')
               else ('' NON-BW ENTRY'', ''EDUKASI - Introduce Value-Added Services''))
            else if cluster = ''ATM_IOT'' then
              (''[SAT] ATM/IoT'', ''MAINTAIN - Ensure Reliability, No BW Upsell Needed'')
            else if cluster = ''UMKM_SMALL'' then
              (if ge_float (pendapatan30 row) thresh_median_pendapatan
               then (''[MOBILE] UMKM POTENSIAL'', ''UPSELL - Upgrade to Corporate Package'')
               else ('' UMKM PEMULA'', ''EDUKASI - Digital Business Solutions''))
            else if cluster = ''CORPORATE'' then
              (let high_rev = ge_float (pendapatan30 row) thresh_median_pendapatan;
                   high_bw = ge_float (bandwidth_mbps30 row) thresh_median_bandwidth
               in if high_rev \<and> high_bw
                  then (''[STAR] CORPORATE BINTANG'', ''PERTAHANKAN - Premium Support & Bundle'')
                  else if high_rev \<and> \<not> high_bw
                  then (''[TARGET] CORPORATE RISIKO'', ''CROSS-SELL - Smart Solutions, PV, EV'')
                  else if \<not> high_rev \<and> high_bw
                  then ('' CORPORATE SNIPER'', ''UPSELL - Increase Bandwidth & Add Services'')
                  else ('' CORPORATE PEMULA'', ''EDUKASI - Demo & Onboarding''))
            else if cluster = ''ENTERPRISE'' then
              (if ge_float (pendapatan30 row) thresh_median_pendapatan
               then (''[OFFICE] ENTERPRISE BINTANG'', ''PERTAHANKAN - SLA Premium & Consultative'')
               else (''[SAT] ENTERPRISE POTENSI'', ''OPTIMIZE - Efficiency & Cost Management''))
            else ('' UNKNOWN'', ''ANALYZE''))
      in map classify_customer df)"

section \<open>Sample inputs of the scoring engine\<close>

text \<open>
  Two company/product pairs used to evaluate the scoring function. The first is a
  government customer due for renewal and the catalog product Security Basic, with an
  index built from one customer that holds both products: every factor but the industry
  fit takes its largest value. On the second pair every factor takes its smallest value.
\<close>

definition company_top :: company where
  "company_top =
     \<lparr>tier = ''DI-TS'', category = ''Connectivity'', bandwidth_clean = (20, ''Connectivity''),
      industry = ''GOVERNMENT'', current_products = Some [''Metronet''],
      revenue = 500000, tenure_clean = 0\<rparr>"

definition product_top :: product where
  "product_top = catalog_product ''Security Basic'' ''Connectivity'' ''DI-TS''"

definition index_top :: cooc where
  "index_top = build_cooccurrence_matrix [[''Metronet'', ''Security Basic'']]"

definition company_min :: company where
  "company_min =
     \<lparr>tier = ''DI-TS'', category = ''Connectivity'', bandwidth_clean = (1, ''Connectivity''),
      industry = ''RETAIL'', current_products = Some [''Metronet''],
      revenue = 500000, tenure_clean = 0\<rparr>"

definition product_min :: product where
  "product_min =
     \<lparr>product_name = ''Cloud Enterprise'', product_category = ''Platform'', tier_level = 5,
      cost_tier = 5, min_bandwidth = 100, complexity = ''Complex'',
      target_industries = [], tags = None\<rparr>"

section \<open>Properties of the string primitives\<close>

lemma starts_with_append: "starts_with p s \<longleftrightarrow> (\<exists>t. s = p @ t)"
  by (induction p s rule: starts_with.induct) auto

lemma contains_append: "contains sub s \<longleftrightarrow> (\<exists>a b. s = a @ sub @ b)"
proof (induction s)
  case Nil
  then show ?case by auto
next
  case (Cons c cs)
  show ?case
  proof
    assume "contains sub (c # cs)"
    then consider "starts_with sub (c # cs)" | "contains sub cs" by auto
    then show "\<exists>a b. c # cs = a @ sub @ b"
    proof cases
      case 1
      then obtain t where "c # cs = sub @ t" by (auto simp: starts_with_append)
      then have "c # cs = [] @ sub @ t" by simp
      then show ?thesis by blast
    next
      case 2
      then obtain a b where "cs = a @ sub @ b" using Cons.IH by auto
      then have "c # cs = (c # a) @ sub @ b" by simp
      then show ?thesis by blast
    qed
  next
    assume "\<exists>a b. c # cs = a @ sub @ b"
    then obtain a b where ab: "c # cs = a @ sub @ b" by auto
    show "contains sub (c # cs)"
    proof (cases a)
      case Nil
      then have "starts_with sub (c # cs)" using ab by (auto simp: starts_with_append)
      then show ?thesis by simp
    next
      case (Cons x a')
      then have "cs = a' @ sub @ b" using ab by simp
      then have "contains sub cs" using Cons.IH by blast
      then show ?thesis by simp
    qed
  qed
qed

lemma contains_set: "contains sub s \<Longrightarrow> set sub \<subseteq> set s"
  by (auto simp: contains_append)

lemma dropWhile_keeps_contains:
  assumes "contains sub s" "sub \<noteq> []" "\<not> P (hd sub)"
  shows "contains sub (dropWhile P s)"
proof -
  from assms obtain a b where s: "s = a @ sub @ b" by (auto simp: contains_append)
  have nP: "\<exists>x \<in> set (sub @ b). \<not> P x" using assms by (cases sub) auto
  show ?thesis
  proof (cases "\<forall>x \<in> set a. P x")
    case True
    then have "dropWhile P s = dropWhile P (sub @ b)" using s by (simp add: dropWhile_append2)
    also have "\<dots> = sub @ b" using assms by (cases sub) auto
    finally have "dropWhile P s = [] @ sub @ b" by simp
    then show ?thesis unfolding contains_append by blast
  next
    case False
    then have "dropWhile P s = dropWhile P a @ sub @ b" using s
      by (metis dropWhile_append1)
    then show ?thesis unfolding contains_append by blast
  qed
qed

lemma contains_rev: "contains sub s \<longleftrightarrow> contains (rev sub) (rev s)"
proof -
  have "(\<exists>a b. s = a @ sub @ b) \<longleftrightarrow> (\<exists>a b. rev s = a @ rev sub @ b)"
  proof
    assume "\<exists>a b. s = a @ sub @ b"
    then obtain a b where "s = a @ sub @ b" by auto
    then have "rev s = rev b @ rev sub @ rev a" by simp
    then show "\<exists>a b. rev s = a @ rev sub @ b" by blast
  next
    assume "\<exists>a b. rev s = a @ rev sub @ b"
    then obtain a b where "rev s = a @ rev sub @ b" by auto
    then have "rev (rev s) = rev (a @ rev sub @ b)" by simp
    then have "s = rev b @ sub @ rev a" by simp
    then show "\<exists>a b. s = a @ sub @ b" by blast
  qed
  then show ?thesis by (simp add: contains_append)
qed

lemma contains_py_strip:
  assumes "contains sub s" "sub \<noteq> []" "\<not> is_space (hd sub)" "\<not> is_space (last sub)"
  shows "contains sub (py_strip s)"
proof -
  have 1: "contains sub (dropWhile is_space s)"
    using assms by (intro dropWhile_keeps_contains) auto
  then have "contains (rev sub) (rev (dropWhile is_space s))" using contains_rev by blast
  then have "contains (rev sub) (dropWhile is_space (rev (dropWhile is_space s)))"
    using assms by (intro dropWhile_keeps_contains) (auto simp: hd_rev)
  then show ?thesis unfolding py_strip_def using contains_rev[of sub] by simp
qed

lemma py_strip_infix: "\<exists>a b. s = a @ py_strip s @ b"
proof -
  let ?d = "dropWhile is_space s"
  have 1: "s = takeWhile is_space s @ ?d" by simp
  have "rev (dropWhile is_space (rev ?d)) @ rev (takeWhile is_space (rev ?d))
        = rev (takeWhile is_space (rev ?d) @ dropWhile is_space (rev ?d))"
    by (simp only: rev_append)
  also have "\<dots> = rev (rev ?d)" by (simp only: takeWhile_dropWhile_id)
  finally have 2: "?d = py_strip s @ rev (takeWhile is_space (rev ?d))"
    by (simp add: py_strip_def)
  have "s = takeWhile is_space s @ py_strip s @ rev (takeWhile is_space (rev ?d))"
    using 1 2 by metis
  then show ?thesis by blast
qed

lemma contains_py_strip_orig: "contains sub (py_strip s) \<Longrightarrow> contains sub s"
proof -
  assume "contains sub (py_strip s)"
  then obtain a b where ab: "py_strip s = a @ sub @ b" by (auto simp: contains_append)
  obtain a' b' where "s = a' @ py_strip s @ b'" using py_strip_infix by blast
  then have "s = (a' @ a) @ sub @ (b @ b')" using ab by simp
  then show ?thesis unfolding contains_append by blast
qed

lemma set_py_strip: "set (py_strip s) \<subseteq> set s"
proof -
  obtain a b where "s = a @ py_strip s @ b" using py_strip_infix by blast
  then have "set s = set a \<union> set (py_strip s) \<union> set b" by (metis set_append Un_assoc)
  then show ?thesis by blast
qed

section \<open>Properties of the tenure cleaner\<close>

lemma isdigit_not_has: "py_isdigit t \<Longrightarrow> c \<in> set t \<Longrightarrow> isdigit_char c"
  by (auto simp: py_isdigit_def list_all_iff)

lemma quoted_number_chars:
  assumes "quoted_number t" "c \<in> set t"
  shows "c = CHR 0x27 \<or> is_decimal c"
proof -
  from assms(1) obtain q rest where t: "t = q # rest" "q = CHR 0x27" "rest \<noteq> []"
      "last rest = CHR 0x27" "list_all is_decimal (butlast rest)"
    by (auto simp: quoted_number_def split: list.splits)
  have "set (butlast rest @ [last rest]) = set (butlast rest) \<union> {last rest}" by simp
  then have "set rest = set (butlast rest) \<union> {last rest}" using t(3) by simp
  with assms(2) t show ?thesis by (auto simp: list_all_iff)
qed

lemma letter_blocks_number:
  assumes "contains sub t" "c \<in> set sub" "\<not> isdigit_char c" "c \<noteq> CHR 0x27"
  shows "\<not> py_isdigit t" "\<not> quoted_number t"
proof -
  have c: "c \<in> set t" using assms contains_set by blast
  show "\<not> py_isdigit t" using c assms(3) isdigit_not_has by blast
  show "\<not> quoted_number t" using c assms(3,4) quoted_number_chars
    by (auto simp: isdigit_char_def)
qed

lemma clean_tenure_berkontrak:
  assumes "contains ''Berkontrak'' s"
  shows "clean_tenure_smart (Str s) = Inr 0"
proof -
  have c: "contains ''Berkontrak'' (py_strip s)"
    using assms by (intro contains_py_strip) (simp_all add: is_space_def)
  have "\<not> py_isdigit (py_strip s)" "\<not> quoted_number (py_strip s)"
    using letter_blocks_number[OF c, of "CHR ''B''"]
    by (simp_all add: isdigit_char_def is_decimal_def)
  with c show ?thesis by (simp add: clean_tenure_smart_def)
qed

lemma clean_tenure_invalid:
  assumes "contains ''Tidak Valid'' s \<or> contains ''Invalid'' s" "\<not> contains ''Berkontrak'' (py_strip s)"
  shows "clean_tenure_smart (Str s) = Inr 3"
proof -
  have c: "contains ''Tidak Valid'' (py_strip s) \<or> contains ''Invalid'' (py_strip s)"
    using assms(1) contains_py_strip[of "''Tidak Valid''" s] contains_py_strip[of "''Invalid''" s]
    by (auto simp: is_space_def)
  have "\<not> py_isdigit (py_strip s) \<and> \<not> quoted_number (py_strip s)"
    using c letter_blocks_number[of "''Tidak Valid''" "py_strip s" "CHR ''d''"]
      letter_blocks_number[of "''Invalid''" "py_strip s" "CHR ''d''"]
    by (auto simp: isdigit_char_def is_decimal_def)
  with c assms(2) show ?thesis by (auto simp: clean_tenure_smart_def)
qed

lemma first_number_decimal:
  assumes "first_number t = Some ds"
  shows "ds \<noteq> [] \<and> list_all is_decimal ds"
proof -
  let ?u = "dropWhile (\<lambda>c. \<not> is_decimal c) t"
  from assms have u: "?u \<noteq> []" and ds: "ds = takeWhile is_decimal ?u"
    by (auto simp: first_number_def Let_def split: if_splits)
  have "is_decimal (hd ?u)" using u hd_dropWhile[of "\<lambda>c. \<not> is_decimal c" t] by auto
  then have "ds \<noteq> []" using u ds by (cases ?u) auto
  moreover have "list_all is_decimal ds" unfolding ds list_all_iff
    by (auto dest: set_takeWhileD)
  ultimately show ?thesis by simp
qed

lemma py_int_decimal: "ds \<noteq> [] \<Longrightarrow> list_all is_decimal ds \<Longrightarrow> py_int ds = Inr (digits_to_nat ds)"
  by (simp add: py_int_def)

lemma clean_tenure_free_text:
  assumes "\<not> py_isdigit (py_strip s)" "\<not> quoted_number (py_strip s)"
    "\<not> contains ''Berkontrak'' (py_strip s)"
    "\<not> contains ''Tidak Valid'' (py_strip s)" "\<not> contains ''Invalid'' (py_strip s)"
    "first_number (py_strip s) = Some ds"
  shows "clean_tenure_smart (Str s) = Inr (min (digits_to_nat ds) 26)"
  using assms first_number_decimal[OF assms(6)]
  by (simp add: clean_tenure_smart_def py_int_decimal)

lemma clean_tenure_cap: "clean_tenure_smart v = Inr r \<Longrightarrow> r \<le> 26"
  by (auto simp: clean_tenure_smart_def Let_def split: cell.splits if_splits sum.splits option.splits)

section \<open>Properties of the bandwidth normalizer\<close>

lemma search_bw_decimal:
  "search_bw s = Some (ds, u) \<Longrightarrow> ds \<noteq> [] \<and> list_all is_decimal ds \<and> (u = ''MBPS'' \<or> u = ''GBPS'')"
proof (induction s)
  case Nil
  then show ?case by simp
next
  case (Cons c cs)
  show ?case
  proof (cases "search_bw cs = Some (ds, u)")
    case True
    then show ?thesis using Cons.IH by simp
  next
    case False
    with Cons.prems have c: "is_decimal c" and ds: "ds = takeWhile is_decimal (c # cs)"
      and u: "u = ''MBPS'' \<or> u = ''GBPS''"
      by (auto simp: Let_def split: if_splits)
    have "list_all is_decimal ds" unfolding ds list_all_iff by (auto dest: set_takeWhileD)
    moreover have "ds \<noteq> []" using c ds by simp
    ultimately show ?thesis using u by simp
  qed
qed

lemma parse_bandwidth_smart_tag:
  assumes "parse_bandwidth_smart v = Inr (n, tag)"
  shows "tag \<in> {''Connectivity'', ''IP-Only'', ''Non-Connectivity'', ''Unknown''}"
  using assms
  by (auto simp: parse_bandwidth_smart_def Let_def
           split: cell.splits if_splits option.splits sum.splits prod.splits)

lemma upper_char_cases: "upper_char c = c \<or> upper_char c \<in> set ''ABCDEFGHIJKLMNOPQRSTUVWXYZ''"
  by (simp add: upper_char_def)

lemma parse_bandwidth_smart_raises_only_isdigit:
  assumes "parse_bandwidth_smart (Str s) = Inl e"
  shows "py_isdigit (py_strip (py_upper s)) \<and> \<not> list_all is_decimal (py_strip (py_upper s))"
proof -
  let ?bw = "py_strip (py_upper s)"
  have regex: "\<And>ds u. search_bw ?bw = Some (ds, u) \<Longrightarrow> py_int ds = Inr (digits_to_nat ds)"
    using search_bw_decimal by (simp add: py_int_def)
  show ?thesis
  proof (cases "search_bw ?bw")
    case None
    with assms show ?thesis
      by (auto simp: parse_bandwidth_smart_def Let_def py_int_def py_isdigit_def split: if_splits)
  next
    case (Some p)
    obtain ds u where p: "p = (ds, u)" by (cases p)
    with Some regex have "py_int ds = Inr (digits_to_nat ds)" by simp
    with assms Some p show ?thesis
      by (auto simp: parse_bandwidth_smart_def Let_def split: if_splits)
  qed
qed

lemma parse_bandwidth_smart_total_without_superscripts:
  assumes "\<forall>c \<in> set s. c \<notin> set [CHR 0xB2, CHR 0xB3, CHR 0xB9]"
  shows "\<exists>n tag. parse_bandwidth_smart (Str s) = Inr (n, tag)"
proof (rule ccontr)
  assume "\<not> ?thesis"
  then obtain e where e: "parse_bandwidth_smart (Str s) = Inl e"
    by (cases "parse_bandwidth_smart (Str s)") auto
  let ?bw = "py_strip (py_upper s)"
  from parse_bandwidth_smart_raises_only_isdigit[OF e]
  obtain c where c: "c \<in> set ?bw" "isdigit_char c" "\<not> is_decimal c"
    by (auto simp: py_isdigit_def list_all_iff)
  then have sup: "c \<in> set [CHR 0xB2, CHR 0xB3, CHR 0xB9]" by (simp add: isdigit_char_def)
  from c(1) have "c \<in> set (py_upper s)" using set_py_strip by blast
  then obtain d where d: "d \<in> set s" "c = upper_char d" by (auto simp: py_upper_def)
  have "c = d" using upper_char_cases[of d] d(2) sup by auto
  with d(1) sup assms show False by blast
qed

section \<open>Properties of the co-occurrence index\<close>

lemma cooccurrence_incr:
  "cooccurrence (incr co p1 p2) a b = cooccurrence co a b + (if a = p1 \<and> b = p2 then 1 else 0)"
  by (auto simp: cooccurrence_def incr_def Let_def split: option.splits)

lemma cooccurrence_count_with:
  "cooccurrence (count_with p1 rest co) a b =
     cooccurrence co a b + (if a = p1 then count_list rest b else 0)
       + (if b = p1 then count_list rest a else 0)"
  by (induction rest arbitrary: co) (auto simp: cooccurrence_incr)

lemma cooccurrence_count_pairs:
  "cooccurrence (count_pairs ps co) a b =
     cooccurrence co a b +
       (if a = b then count_list ps a * (count_list ps a - 1)
        else count_list ps a * count_list ps b)"
proof (induction ps arbitrary: co)
  case Nil
  then show ?case by simp
next
  case (Cons p rest)
  show ?case
  proof (cases "a = b")
    case False
    then show ?thesis
      by (simp add: Cons.IH cooccurrence_count_with algebra_simps)
  next
    case True
    with Cons.IH [of "count_with p rest co"] show ?thesis
      by (cases "count_list rest a") (auto simp: cooccurrence_count_with algebra_simps)
  qed
qed

lemma cooccurrence_fold:
  "cooccurrence (fold count_pairs rows co) a b =
     cooccurrence co a b +
       (\<Sum>ps\<leftarrow>rows. if a = b then count_list ps a * (count_list ps a - 1)
                    else count_list ps a * count_list ps b)"
  by (induction rows arbitrary: co) (simp_all add: cooccurrence_count_pairs)

lemma cooccurrence_build:
  "cooccurrence (build_cooccurrence_matrix rows) a b =
       (\<Sum>ps\<leftarrow>rows. if a = b then count_list ps a * (count_list ps a - 1)
                    else count_list ps a * count_list ps b)"
proof -
  have "cooccurrence Map.empty a b = 0" by (simp add: cooccurrence_def)
  then show ?thesis by (simp add: build_cooccurrence_matrix_def cooccurrence_fold)
qed

lemma count_list_distinct: "distinct ps \<Longrightarrow> count_list ps a = (if a \<in> set ps then 1 else 0)"
  by (induction ps) auto

lemma sum_list_holders:
  "(\<Sum>ps\<leftarrow>rows. if a \<in> set ps \<and> b \<in> set ps then 1 else 0)
     = length (filter (\<lambda>ps. a \<in> set ps \<and> b \<in> set ps) rows)"
  by (induction rows) auto

lemma cooccurrence_distinct_rows:
  assumes "\<forall>ps \<in> set rows. distinct ps" "a \<noteq> b"
  shows "cooccurrence (build_cooccurrence_matrix rows) a b
           = length (filter (\<lambda>ps. a \<in> set ps \<and> b \<in> set ps) rows)"
proof -
  have "(\<Sum>ps\<leftarrow>rows. count_list ps a * count_list ps b)
          = (\<Sum>ps\<leftarrow>rows. if a \<in> set ps \<and> b \<in> set ps then 1 else 0)"
    using assms(1) by (intro arg_cong[where f = sum_list] map_cong) (auto simp: count_list_distinct)
  then show ?thesis using assms(2) by (simp add: cooccurrence_build sum_list_holders)
qed

text \<open>The stored dictionaries hold an entry exactly where the count is positive.\<close>

lemma entry_incr:
  "Option.bind (incr co p1 p2 a) (\<lambda>m. m b) =
     (if a = p1 \<and> b = p2 then Some (cooccurrence co a b + 1) else Option.bind (co a) (\<lambda>m. m b))"
  by (auto simp: cooccurrence_def incr_def Let_def split: option.splits)

lemma entry_positive_incr:
  assumes "\<forall>a b. Option.bind (co a) (\<lambda>m. m b) \<noteq> Some 0"
  shows "\<forall>a b. Option.bind (incr co p1 p2 a) (\<lambda>m. m b) \<noteq> Some 0"
  using assms by (simp add: entry_incr)

lemma entry_positive_count_with:
  "\<forall>a b. Option.bind (co a) (\<lambda>m. m b) \<noteq> Some 0 \<Longrightarrow>
   \<forall>a b. Option.bind (count_with p1 rest co a) (\<lambda>m. m b) \<noteq> Some 0"
proof (induction rest arbitrary: co)
  case Nil
  then show ?case by simp
next
  case (Cons p2 rest)
  have "\<forall>a b. Option.bind (incr (incr co p1 p2) p2 p1 a) (\<lambda>m. m b) \<noteq> Some 0"
    using Cons.prems entry_positive_incr by blast
  then show ?case using Cons.IH by simp
qed

lemma entry_positive_count_pairs:
  "\<forall>a b. Option.bind (co a) (\<lambda>m. m b) \<noteq> Some 0 \<Longrightarrow>
   \<forall>a b. Option.bind (count_pairs ps co a) (\<lambda>m. m b) \<noteq> Some 0"
proof (induction ps arbitrary: co)
  case Nil
  then show ?case by simp
next
  case (Cons p rest)
  have "\<forall>a b. Option.bind (count_with p rest co a) (\<lambda>m. m b) \<noteq> Some 0"
    using Cons.prems entry_positive_count_with by blast
  then show ?case using Cons.IH by simp
qed

lemma entry_positive_fold:
  "\<forall>a b. Option.bind (co a) (\<lambda>m. m b) \<noteq> Some 0 \<Longrightarrow>
   \<forall>a b. Option.bind (fold count_pairs rows co a) (\<lambda>m. m b) \<noteq> Some 0"
proof (induction rows arbitrary: co)
  case Nil
  then show ?case by simp
next
  case (Cons ps rows)
  have "\<forall>a b. Option.bind (count_pairs ps co a) (\<lambda>m. m b) \<noteq> Some 0"
    using Cons.prems entry_positive_count_pairs by blast
  then show ?case using Cons.IH by simp
qed

lemma entry_build:
  "Option.bind (build_cooccurrence_matrix rows a) (\<lambda>m. m b) =
     (if cooccurrence (build_cooccurrence_matrix rows) a b = 0 then None
      else Some (cooccurrence (build_cooccurrence_matrix rows) a b))"
proof -
  have "\<forall>a b. Option.bind (build_cooccurrence_matrix rows a) (\<lambda>m. m b) \<noteq> Some 0"
    unfolding build_cooccurrence_matrix_def by (rule entry_positive_fold) simp
  then have "Option.bind (build_cooccurrence_matrix rows a) (\<lambda>m. m b) \<noteq> Some 0" by blast
  then show ?thesis
    by (auto simp: cooccurrence_def split: option.splits)
qed

lemma cooccurrence_symmetric:
  "cooccurrence (build_cooccurrence_matrix rows) a b = cooccurrence (build_cooccurrence_matrix rows) b a"
proof -
  have "(\<lambda>ps. if a = b then count_list ps a * (count_list ps a - 1) else count_list ps a * count_list ps b)
      = (\<lambda>ps. if b = a then count_list ps b * (count_list ps b - 1) else count_list ps b * count_list ps a)"
    by (auto simp: mult.commute)
  then show ?thesis by (simp only: cooccurrence_build)
qed

section \<open>Properties of the threshold calculators\<close>

lemma sort_mset_cong: "mset xs = mset ys \<Longrightarrow> sort xs = sort (ys :: rat list)"
  by (metis properties_for_sort sorted_sort mset_sort)

lemma median_mset_cong: "mset xs = mset ys \<Longrightarrow> median xs = median ys"
  by (simp add: median_def sort_mset_cong[of xs ys])

lemma quantile_mset_cong: "mset xs = mset ys \<Longrightarrow> quantile q xs = quantile q ys"
  by (simp add: quantile_def sort_mset_cong[of xs ys])

lemma mean_mset_cong:
  assumes "mset xs = mset ys"
  shows "mean xs = mean ys"
proof -
  have "sum_list xs = sum_list ys" using assms by (metis sum_mset_sum_list)
  moreover have "length xs = length ys" using assms by (metis size_mset)
  moreover have "xs = [] \<longleftrightarrow> ys = []" using assms by (metis mset_zero_iff)
  ultimately show ?thesis by (simp add: mean_def)
qed

lemma threshold_bundle_mset_cong:
  assumes "mset d = mset d'"
  shows "threshold_bundle d = threshold_bundle d'"
proof -
  have p: "mset (map pendapatan d) = mset (map pendapatan d')"
    and b: "mset (map bandwidth_mbps d) = mset (map bandwidth_mbps d')"
    using assms by (metis mset_map)+
  show ?thesis
    unfolding threshold_bundle_def
    by (simp only: median_mset_cong[OF p] median_mset_cong[OF b]
          quantile_mset_cong[OF p] quantile_mset_cong[OF b] mean_mset_cong[OF p])
qed

lemma threshold_bundle30_mset_cong:
  assumes "mset d = mset d'"
  shows "threshold_bundle30 d = threshold_bundle30 d'"
proof -
  have p: "mset (map pendapatan30 d) = mset (map pendapatan30 d')"
    and b: "mset (map bandwidth_mbps30 d) = mset (map bandwidth_mbps30 d')"
    using assms by (metis mset_map)+
  show ?thesis
    unfolding threshold_bundle30_def
    by (simp only: median_mset_cong[OF p] median_mset_cong[OF b] quantile_mset_cong[OF p])
qed

lemma set_unique: "set (unique xs) = set xs"
  by (simp add: unique_def)

lemma fold_threshold_step:
  "fold (threshold_step df) cs th c =
     (if c \<in> set cs \<and> c \<noteq> ''TIDAK_DIKETAHUI'' \<and> filter (\<lambda>r. cluster_bandwidth r = c) df \<noteq> []
      then Some (threshold_bundle (filter (\<lambda>r. cluster_bandwidth r = c) df))
      else th c)"
proof (induction cs arbitrary: th)
  case Nil
  then show ?case by simp
next
  case (Cons x cs)
  show ?case
    by (simp add: Cons.IH) (auto simp: threshold_step_def Let_def)
qed

lemma filter_nonempty_iff: "filter (\<lambda>r. f r = c) df \<noteq> [] \<longleftrightarrow> c \<in> set (map f df)"
  by (auto simp: filter_empty_conv)

lemma cluster_thresholds_lookup:
  "cluster_thresholds df c =
     (if c \<noteq> ''TIDAK_DIKETAHUI'' \<and> filter (\<lambda>r. cluster_bandwidth r = c) df \<noteq> []
      then Some (threshold_bundle (filter (\<lambda>r. cluster_bandwidth r = c) df))
      else None)"
  unfolding cluster_thresholds_def fold_threshold_step set_unique
  using filter_nonempty_iff[of cluster_bandwidth c df] by auto

lemma fold_threshold_step30:
  "fold (threshold_step30 df) cs th c =
     (if c \<in> set cs \<and> filter (\<lambda>r. bandwidth_cluster r = c) df \<noteq> []
      then Some (threshold_bundle30 (filter (\<lambda>r. bandwidth_cluster r = c) df))
      else th c)"
proof (induction cs arbitrary: th)
  case Nil
  then show ?case by simp
next
  case (Cons x cs)
  show ?case
    by (simp add: Cons.IH) (auto simp: threshold_step30_def Let_def)
qed

lemma cluster_thresholds30_lookup:
  "cluster_thresholds30 df c =
     (if filter (\<lambda>r. bandwidth_cluster r = c) df \<noteq> []
      then Some (threshold_bundle30 (filter (\<lambda>r. bandwidth_cluster r = c) df))
      else None)"
  unfolding cluster_thresholds30_def fold_threshold_step30 set_unique
  using filter_nonempty_iff[of bandwidth_cluster c df] by auto

lemma cluster_thresholds_cong:
  assumes "mset (filter (\<lambda>r. cluster_bandwidth r = A) df) = mset (filter (\<lambda>r. cluster_bandwidth r = A) df')"
  shows "cluster_thresholds df A = cluster_thresholds df' A"
proof -
  have "filter (\<lambda>r. cluster_bandwidth r = A) df = [] \<longleftrightarrow> filter (\<lambda>r. cluster_bandwidth r = A) df' = []"
    using assms by (metis mset_zero_iff)
  then show ?thesis
    using threshold_bundle_mset_cong[OF assms] by (simp add: cluster_thresholds_lookup)
qed

lemma cluster_thresholds30_cong:
  assumes "mset (filter (\<lambda>r. bandwidth_cluster r = A) df) = mset (filter (\<lambda>r. bandwidth_cluster r = A) df')"
  shows "cluster_thresholds30 df A = cluster_thresholds30 df' A"
proof -
  have "filter (\<lambda>r. bandwidth_cluster r = A) df = [] \<longleftrightarrow> filter (\<lambda>r. bandwidth_cluster r = A) df' = []"
    using assms by (metis mset_zero_iff)
  then show ?thesis
    using threshold_bundle30_mset_cong[OF assms] by (simp add: cluster_thresholds30_lookup)
qed

lemma sort_nonempty: "xs \<noteq> [] \<Longrightarrow> sort xs \<noteq> ([] :: rat list)"
  by (metis length_0_conv length_sort)

lemma median_not_nan:
  assumes "xs \<noteq> []"
  shows "median xs \<noteq> None"
proof -
  have "length (sort xs) \<noteq> 0" by (metis assms length_0_conv length_sort)
  then show ?thesis unfolding median_def Let_def
    by (simp only: if_False) (simp del: not_None_eq)
qed

lemma quantile_not_nan:
  assumes "xs \<noteq> []"
  shows "quantile q xs \<noteq> None"
proof -
  have "length (sort xs) \<noteq> 0" by (metis assms length_0_conv length_sort)
  then show ?thesis unfolding quantile_def Let_def by (simp only: if_False) simp
qed

lemma mean_not_nan: "xs \<noteq> [] \<Longrightarrow> mean xs \<noteq> None"
  by (simp add: mean_def)

lemma cluster_thresholds_not_nan:
  assumes "cluster_thresholds df c = Some t"
  shows "median_pendapatan t \<noteq> None \<and> median_bandwidth t \<noteq> None \<and> q75_bandwidth t \<noteq> None
         \<and> q25_pendapatan t \<noteq> None \<and> avg_pendapatan t \<noteq> None"
proof -
  let ?d = "filter (\<lambda>r. cluster_bandwidth r = c) df"
  from assms have d: "?d \<noteq> []" and t: "t = threshold_bundle ?d"
    by (auto simp: cluster_thresholds_lookup split: if_splits)
  show ?thesis unfolding t threshold_bundle_def using d
    by (simp add: median_not_nan quantile_not_nan mean_not_nan)
qed

lemma cluster_thresholds30_total:
  assumes "r \<in> set df"
  shows "\<exists>t. cluster_thresholds30 df (bandwidth_cluster r) = Some t
             \<and> median_pendapatan30 t \<noteq> None \<and> median_bandwidth30 t \<noteq> None"
proof -
  let ?d = "filter (\<lambda>x. bandwidth_cluster x = bandwidth_cluster r) df"
  have d: "?d \<noteq> []" using assms by (auto simp: filter_empty_conv)
  then have "cluster_thresholds30 df (bandwidth_cluster r) = Some (threshold_bundle30 ?d)"
    by (simp add: cluster_thresholds30_lookup)
  moreover have "median_pendapatan30 (threshold_bundle30 ?d) \<noteq> None
      \<and> median_bandwidth30 (threshold_bundle30 ?d) \<noteq> None"
    using d by (simp add: threshold_bundle30_def median_not_nan)
  ultimately show ?thesis by blast
qed

lemma cluster_thresholds30_own_entry:
  assumes "r \<in> set df"
  shows "cluster_thresholds30 df (bandwidth_cluster r)
           = Some (threshold_bundle30 (filter (\<lambda>x. bandwidth_cluster x = bandwidth_cluster r) df))"
proof -
  have "filter (\<lambda>x. bandwidth_cluster x = bandwidth_cluster r) df \<noteq> []"
    using assms by (auto simp: filter_empty_conv)
  then show ?thesis by (simp add: cluster_thresholds30_lookup)
qed

section \<open>Properties of the scoring factors\<close>

lemma factor_tier_bounds: "3 \<le> factor_tier c p \<and> factor_tier c p \<le> 15"
  by (simp add: factor_tier_def Let_def)

lemma factor_category_bounds: "5 \<le> factor_category c p \<and> factor_category c p \<le> 15"
  by (simp add: factor_category_def)

lemma factor_bandwidth_bounds: "2 \<le> factor_bandwidth c p \<and> factor_bandwidth c p \<le> 15"
  by (simp add: factor_bandwidth_def Let_def)

lemma factor_industry_bounds: "5 \<le> factor_industry c p \<and> factor_industry c p \<le> 15"
  by (simp add: factor_industry_def)

lemma factor_affordability_bounds: "2 \<le> factor_affordability c p \<and> factor_affordability c p \<le> 15"
  by (simp add: factor_affordability_def Let_def)

lemma factor_tenure_bounds: "3 \<le> factor_tenure c p \<and> factor_tenure c p \<le> 15"
  by (simp add: factor_tenure_def Let_def)

lemma factor_tenure_without_retention:
  "''Retention'' \<notin> set (case tags p of None \<Rightarrow> [] | Some ts \<Rightarrow> ts) \<Longrightarrow> factor_tenure c p \<le> 10"
  by (cases "tags p") (simp_all add: factor_tenure_def Let_def)

lemma boost_loop_mono:
  "boost_loop ps cand co n boost = Inr b \<Longrightarrow> boost \<le> b"
proof (induction ps arbitrary: boost)
  case Nil
  then show ?case by simp
next
  case (Cons cur rest)
  show ?case
  proof (cases "co cur")
    case None
    with Cons show ?thesis by simp
  next
    case (Some m)
    show ?thesis
    proof (cases "m cand")
      case None
      with Some Cons show ?thesis by simp
    next
      case (Some cnt)
      with \<open>co cur = Some m\<close> Cons.prems
      have t: "n \<noteq> 0"
        and r: "boost_loop rest cand co n (boost + (of_nat cnt / of_nat n) * 20) = Inr b"
        by (auto split: if_splits)
      have "0 \<le> (of_nat cnt / of_nat n :: rat) * 20" by simp
      moreover have "boost + (of_nat cnt / of_nat n) * 20 \<le> b" using Cons.IH[OF r] .
      ultimately show ?thesis by linarith
    qed
  qed
qed

lemma boost_loop_returns:
  "0 < n \<Longrightarrow> \<exists>b. boost_loop ps cand co n boost = Inr b"
  by (induction ps arbitrary: boost) (auto split: option.splits)

lemma factor_cooccurrence_bounds:
  assumes "factor_cooccurrence c p co n = Inr f"
  shows "0 \<le> f \<and> f \<le> 10"
proof (cases "(case current_products c of None \<Rightarrow> [] | Some ps \<Rightarrow> ps) = []")
  case True
  with assms show ?thesis by (auto simp: factor_cooccurrence_def Let_def)
next
  case False
  with assms obtain b where
    b: "boost_loop (case current_products c of None \<Rightarrow> [] | Some ps \<Rightarrow> ps) (product_name p) co n 0 = Inr b"
    and f: "f = min (min b 20) 10"
    by (auto simp: factor_cooccurrence_def get_cooccurrence_boost_def Let_def split: sum.splits)
  have "0 \<le> b" using boost_loop_mono[OF b] .
  with f show ?thesis by simp
qed

lemma factor_cooccurrence_returns:
  assumes "0 < n"
  shows "\<exists>f. factor_cooccurrence c p co n = Inr f"
proof -
  obtain b where
    "boost_loop (case current_products c of None \<Rightarrow> [] | Some ps \<Rightarrow> ps) (product_name p) co n 0 = Inr b"
    using boost_loop_returns[OF assms] by blast
  then show ?thesis
    by (simp add: factor_cooccurrence_def get_cooccurrence_boost_def Let_def)
qed

lemma calculate_nbo_score_bounds:
  assumes "calculate_nbo_score_v4_2 c p co n = Inr s"
  shows "25 \<le> s \<and> s \<le> 100"
proof -
  from assms obtain f5 where f5: "factor_cooccurrence c p co n = Inr f5"
    and s: "s = min (factor_tier c p + factor_category c p + factor_bandwidth c p
                    + factor_industry c p + f5 + factor_regional
                    + factor_affordability c p + factor_tenure c p) 100"
    by (auto simp: calculate_nbo_score_v4_2_def split: sum.splits)
  note b = factor_tier_bounds[of c p] factor_category_bounds[of c p] factor_bandwidth_bounds[of c p]
    factor_industry_bounds[of c p] factor_affordability_bounds[of c p] factor_tenure_bounds[of c p]
    factor_cooccurrence_bounds[OF f5]
  have "25 \<le> factor_tier c p + factor_category c p + factor_bandwidth c p
                    + factor_industry c p + f5 + factor_regional
                    + factor_affordability c p + factor_tenure c p"
    using b by (simp add: factor_regional_def)
  then show ?thesis unfolding s by simp
qed

lemma calculate_nbo_score_returns:
  assumes "0 < n"
  shows "\<exists>s. calculate_nbo_score_v4_2 c p co n = Inr s"
proof -
  obtain f where "factor_cooccurrence c p co n = Inr f"
    using factor_cooccurrence_returns[OF assms] by blast
  then show ?thesis by (simp add: calculate_nbo_score_v4_2_def)
qed

lemma factor_industry_without_targets:
  "target_industries p = [] \<Longrightarrow> factor_industry c p \<le> 12"
  by (simp add: factor_industry_def)


lemma calculate_nbo_score_zero_companies:
  "calculate_nbo_score_v4_2 company_top product_top index_top 0 = Inl ZeroDivisionError"
  by code_simp

lemma calculate_nbo_score_catalog_at_most_97:
  assumes "calculate_nbo_score_v4_2 c (catalog_product produk kategori_produk nomenklatur_baru) co n = Inr s"
  shows "s \<le> 97"
proof -
  let ?p = "catalog_product produk kategori_produk nomenklatur_baru"
  from assms obtain f5 where f5: "factor_cooccurrence c ?p co n = Inr f5"
    and s: "s = min (factor_tier c ?p + factor_category c ?p + factor_bandwidth c ?p
                    + factor_industry c ?p + f5 + factor_regional
                    + factor_affordability c ?p + factor_tenure c ?p) 100"
    by (auto simp: calculate_nbo_score_v4_2_def split: sum.splits)
  have i: "factor_industry c ?p \<le> 12"
    by (rule factor_industry_without_targets) (simp add: catalog_product_def)
  have t: "factor_tenure c ?p \<le> 10"
    by (rule factor_tenure_without_retention) (simp add: catalog_product_def)
  note b = factor_tier_bounds[of c ?p] factor_category_bounds[of c ?p]
    factor_bandwidth_bounds[of c ?p] factor_affordability_bounds[of c ?p]
    factor_cooccurrence_bounds[OF f5]
  have "factor_tier c ?p + factor_category c ?p + factor_bandwidth c ?p
                    + factor_industry c ?p + f5 + factor_regional
                    + factor_affordability c ?p + factor_tenure c ?p \<le> 97"
    using b i t by (simp add: factor_regional_def)
  then show ?thesis unfolding s by simp
qed

section \<open>Claims about the field normalizer\<close>

text \<open>
  C6. The claim is that the bandwidth normalizer never raises and always returns a tag of
  the documented set with a non-negative value. The tag and the value are as claimed
  whenever the function returns (\<open>parse_bandwidth_smart_tag\<close>; the value is a natural
  number), and it returns for every text without the superscript digits
  (\<open>parse_bandwidth_smart_total_without_superscripts\<close>). On the one-character text
  U+00B2 (superscript two), however, \<^verbatim>\<open>bw.isdigit()\<close> holds and \<^verbatim>\<open>int(bw)\<close> raises
  ValueError: the function raises instead of returning the default.
\<close>

theorem parse_bandwidth_smart_raises_on_superscript_digit:
  "parse_bandwidth_smart (Str [CHR 0xB2]) = Inl ValueError"
  by code_simp

text \<open>
  C7, as stated: null, the empty text and the sentinel \<^verbatim>\<open>Tidak Ada\<close> all give
  (0, Non-Connectivity). This fails for the empty text, which reaches the last
  \<^verbatim>\<open>return 0, "Unknown"\<close>.
\<close>

theorem parse_bandwidth_smart_empty_counterexample:
  "parse_bandwidth_smart (Str []) \<noteq> Inr (0, ''Non-Connectivity'')"
  by (simp add: parse_bandwidth_smart_def py_strip_def py_upper_def py_isdigit_def)

text \<open>
  C7, amended: a null value and the exact text \<^verbatim>\<open>Tidak Ada\<close> give (0, Non-Connectivity);
  the empty text gives (0, Unknown).
\<close>

theorem parse_bandwidth_smart_no_value:
  "parse_bandwidth_smart Null = Inr (0, ''Non-Connectivity'')
   \<and> parse_bandwidth_smart (Str ''Tidak Ada'') = Inr (0, ''Non-Connectivity'')
   \<and> parse_bandwidth_smart (Str []) = Inr (0, ''Unknown'')"
  by (simp add: parse_bandwidth_smart_def py_strip_def py_upper_def py_isdigit_def)

text \<open>
  C8, as stated: the invalid-data sentinel is mapped to the median tenure of the dataset.
  The function has no access to the dataset; it returns the constant 3. For the column
  \<^verbatim>\<open>10, 10, Data Tidak Valid\<close> the cleaned values are 10, 10 and 3, whose median is 10.
\<close>

theorem clean_tenure_smart_median_counterexample:
  "map clean_tenure_smart [Str ''10'', Str ''10'', Str ''Data Tidak Valid'']
     = [Inr 10, Inr 10, Inr 3]
   \<and> median [10, 10, 3] = Some 10"
  by code_simp

text \<open>
  C8, amended: a text containing \<^verbatim>\<open>Berkontrak\<close> is mapped to 0; the invalid-data sentinel
  (a text containing \<^verbatim>\<open>Tidak Valid\<close> or \<^verbatim>\<open>Invalid\<close> and not \<^verbatim>\<open>Berkontrak\<close>) is mapped to
  the fixed value 3, not to 0; any other text that is neither a number nor a quoted number
  is mapped to the first run of digits in it, capped at 26; and every returned value is at
  most 26.
\<close>

theorem clean_tenure_smart_rules:
  "(contains ''Berkontrak'' s1 \<longrightarrow> clean_tenure_smart (Str s1) = Inr 0)
   \<and> clean_tenure_smart (Str ''Data Tidak Valid'') = Inr 3
   \<and> ((contains ''Tidak Valid'' s2 \<or> contains ''Invalid'' s2) \<and> \<not> contains ''Berkontrak'' s2
        \<longrightarrow> clean_tenure_smart (Str s2) = Inr 3)
   \<and> (\<not> py_isdigit (py_strip s3) \<and> \<not> quoted_number (py_strip s3)
        \<and> \<not> contains ''Berkontrak'' s3 \<and> \<not> contains ''Tidak Valid'' s3
        \<and> \<not> contains ''Invalid'' s3 \<and> first_number (py_strip s3) = Some ds
        \<longrightarrow> clean_tenure_smart (Str s3) = Inr (min (digits_to_nat ds) 26))
   \<and> (clean_tenure_smart v = Inr r \<longrightarrow> r \<le> 26)"
proof -
  have a: "contains ''Berkontrak'' s1 \<longrightarrow> clean_tenure_smart (Str s1) = Inr 0"
    using clean_tenure_berkontrak by blast
  have b: "clean_tenure_smart (Str ''Data Tidak Valid'') = Inr 3"
    by code_simp
  have c: "(contains ''Tidak Valid'' s2 \<or> contains ''Invalid'' s2) \<and> \<not> contains ''Berkontrak'' s2
        \<longrightarrow> clean_tenure_smart (Str s2) = Inr 3"
    using clean_tenure_invalid contains_py_strip_orig by blast
  have d: "\<not> py_isdigit (py_strip s3) \<and> \<not> quoted_number (py_strip s3)
        \<and> \<not> contains ''Berkontrak'' s3 \<and> \<not> contains ''Tidak Valid'' s3
        \<and> \<not> contains ''Invalid'' s3 \<and> first_number (py_strip s3) = Some ds
        \<longrightarrow> clean_tenure_smart (Str s3) = Inr (min (digits_to_nat ds) 26)"
    using clean_tenure_free_text contains_py_strip_orig by blast
  have e: "clean_tenure_smart v = Inr r \<longrightarrow> r \<le> 26"
    using clean_tenure_cap by blast
  from a b c d e show ?thesis by blast
qed

theorem clean_tenure_smart_rules_witness:
  "clean_tenure_smart (Str ''Berkontrak di Tahun 2026'') = Inr 0
   \<and> clean_tenure_smart (Str ''Data Tidak Valid'') = Inr 3
   \<and> clean_tenure_smart (Str ''sekitar 45 tahun'') = Inr (min (digits_to_nat ''45'') 26)
   \<and> (26 :: nat) \<le> 26"
proof -
  have h1: "contains ''Berkontrak'' ''Berkontrak di Tahun 2026''"
    by code_simp
  have h2: "(contains ''Tidak Valid'' ''Data Tidak Valid'' \<or> contains ''Invalid'' ''Data Tidak Valid'')
            \<and> \<not> contains ''Berkontrak'' ''Data Tidak Valid''"
    by code_simp
  have h3: "\<not> py_isdigit (py_strip ''sekitar 45 tahun'') \<and> \<not> quoted_number (py_strip ''sekitar 45 tahun'')
            \<and> \<not> contains ''Berkontrak'' ''sekitar 45 tahun''
            \<and> \<not> contains ''Tidak Valid'' ''sekitar 45 tahun''
            \<and> \<not> contains ''Invalid'' ''sekitar 45 tahun''
            \<and> first_number (py_strip ''sekitar 45 tahun'') = Some ''45''"
    by code_simp
  have h4: "clean_tenure_smart (Str ''30'') = Inr 26"
    by code_simp
  from h1 h2 h3 h4
    clean_tenure_smart_rules [of "''Berkontrak di Tahun 2026''" "''Data Tidak Valid''"
      "''sekitar 45 tahun''" "''45''" "Str ''30''" 26]
  show ?thesis by blast
qed

section \<open>Claims about the co-occurrence index\<close>

text \<open>
  C9: the index is symmetric, and each counter is incremented once per unordered pair of
  distinct products in the same customer's product list. The index is symmetric for every
  input (\<open>cooccurrence_symmetric\<close>), and on lists that do not repeat a product every
  counter is the number of customers holding both products
  (\<open>cooccurrence_distinct_rows\<close>). But the lists come from
  \<^verbatim>\<open>groupby('Row Labels')['ProdukBaru'].apply(list)\<close>, one element per row, so a customer
  with several rows of the same product has it several times: for one customer with the
  rows A, A, B the counter of (A, B) is 2 instead of 1, and the pair of the two rows of A
  adds 2 to the counter of (A, A), a product with itself.
\<close>

theorem build_cooccurrence_matrix_counts_repeated_rows:
  "cooccurrence (build_cooccurrence_matrix [[''A'', ''A'', ''B'']]) ''A'' ''B'' = 2
   \<and> cooccurrence (build_cooccurrence_matrix [[''A'', ''A'', ''B'']]) ''B'' ''A'' = 2
   \<and> cooccurrence (build_cooccurrence_matrix [[''A'', ''A'', ''B'']]) ''A'' ''A'' = 2
   \<and> length (filter (\<lambda>ps. ''A'' \<in> set ps \<and> ''B'' \<in> set ps) [[''A'', ''A'', ''B'']]) = 1"
  by code_simp

section \<open>Claims about thresholds, quadrants and exclusion\<close>

text \<open>
  C3: a customer whose cluster is the lowest tier and whose bandwidth is below 1 Mbps is
  marked excluded by the segmentation, whatever the revenue, and the predictions give an
  excluded customer the upsell score 0, whatever the classifier says; likewise for the
  highest tier above 5000 Mbps. The exclusion flag decides alone, so the stages between
  segmentation and prediction, which only add columns, do not matter.
\<close>

theorem excluded_customers_get_no_upsell:
  "(cluster_bandwidth (segment_row has_kategori r) = ''LOW_BANDWIDTH_GROUP'' \<and> bandwidth_mbps r < 1
      \<longrightarrow> exclude_upsell (segment_row has_kategori r) = 1
          \<and> skor_peluang_upsell (predict_row upsell_model crosssell_model (segment_row has_kategori r)) = 0)
   \<and> (cluster_bandwidth (segment_row has_kategori r) = ''HIGH_BANDWIDTH_GROUP'' \<and> bandwidth_mbps r > 5000
      \<longrightarrow> exclude_upsell (segment_row has_kategori r) = 1
          \<and> skor_peluang_upsell (predict_row upsell_model crosssell_model (segment_row has_kategori r)) = 0)
   \<and> (exclude_upsell x = 1 \<longrightarrow> skor_peluang_upsell (predict_row upsell_model crosssell_model x) = 0)
   \<and> bandwidth_mbps (segment_row has_kategori r) = bandwidth_mbps r
   \<and> pendapatan (segment_row has_kategori r) = pendapatan r"
  by (simp add: segment_row_def predict_row_def Let_def)

theorem excluded_customers_get_no_upsell_witness:
  "exclude_upsell (segment_row True
      \<lparr>kategori = ''Layanan ATM'', pendapatan = 900000000, bandwidth_mbps = 1 / 2,
       cluster_bandwidth = [], exclude_upsell = 0, exclude_reason = [],
       skor_peluang_upsell = 0, skor_peluang_crosssell = 0\<rparr>) = 1
   \<and> skor_peluang_upsell (predict_row (Some (\<lambda>_. 9 / 10)) None (segment_row True
      \<lparr>kategori = ''Layanan ATM'', pendapatan = 900000000, bandwidth_mbps = 1 / 2,
       cluster_bandwidth = [], exclude_upsell = 0, exclude_reason = [],
       skor_peluang_upsell = 0, skor_peluang_crosssell = 0\<rparr>)) = 0"
proof -
  let ?r = "\<lparr>kategori = ''Layanan ATM'', pendapatan = 900000000, bandwidth_mbps = 1 / 2,
       cluster_bandwidth = [], exclude_upsell = 0, exclude_reason = [],
       skor_peluang_upsell = 0, skor_peluang_crosssell = 0\<rparr>"
  have h: "cluster_bandwidth (segment_row True ?r) = ''LOW_BANDWIDTH_GROUP'' \<and> bandwidth_mbps ?r < 1"
    by (simp add: segment_row_def klasifikasi_produk_def py_upper_def upper_char_def)
  from h excluded_customers_get_no_upsell [of True ?r "Some (\<lambda>_. 9 / 10)" None]
  show ?thesis by blast
qed

text \<open>
  C4: the threshold bundle of a cluster A depends on the frame only through the rows whose
  cluster label is A, taken as a multiset. Hence adding, removing, duplicating or
  reordering rows of any other cluster leaves the entry of A unchanged (and so does
  reordering the rows of A). This holds for both threshold calculators.
\<close>

theorem cluster_thresholds_use_own_members_only:
  "(mset (filter (\<lambda>r. cluster_bandwidth r = A) df) = mset (filter (\<lambda>r. cluster_bandwidth r = A) df')
      \<longrightarrow> cluster_thresholds df A = cluster_thresholds df' A)
   \<and> (cluster_bandwidth b \<noteq> A
      \<longrightarrow> cluster_thresholds (xs @ b # ys) A = cluster_thresholds (xs @ ys) A
          \<and> cluster_thresholds (xs @ b # b # ys) A = cluster_thresholds (xs @ ys) A)
   \<and> (mset df = mset df' \<longrightarrow> cluster_thresholds df A = cluster_thresholds df' A)
   \<and> (mset (filter (\<lambda>r. bandwidth_cluster r = A) d30) = mset (filter (\<lambda>r. bandwidth_cluster r = A) d30')
      \<longrightarrow> cluster_thresholds30 d30 A = cluster_thresholds30 d30' A)
   \<and> (bandwidth_cluster b30 \<noteq> A
      \<longrightarrow> cluster_thresholds30 (xs30 @ b30 # ys30) A = cluster_thresholds30 (xs30 @ ys30) A
          \<and> cluster_thresholds30 (xs30 @ b30 # b30 # ys30) A = cluster_thresholds30 (xs30 @ ys30) A)"
proof -
  have a: "mset (filter (\<lambda>r. cluster_bandwidth r = A) df) = mset (filter (\<lambda>r. cluster_bandwidth r = A) df')
      \<longrightarrow> cluster_thresholds df A = cluster_thresholds df' A"
    using cluster_thresholds_cong by blast
  have b: "cluster_bandwidth b \<noteq> A
      \<longrightarrow> cluster_thresholds (xs @ b # ys) A = cluster_thresholds (xs @ ys) A
          \<and> cluster_thresholds (xs @ b # b # ys) A = cluster_thresholds (xs @ ys) A"
    by (simp add: cluster_thresholds_lookup)
  have c: "mset df = mset df' \<longrightarrow> cluster_thresholds df A = cluster_thresholds df' A"
  proof
    assume "mset df = mset df'"
    then have "mset (filter (\<lambda>r. cluster_bandwidth r = A) df)
             = mset (filter (\<lambda>r. cluster_bandwidth r = A) df')"
      by (simp only: mset_filter)
    then show "cluster_thresholds df A = cluster_thresholds df' A"
      by (rule cluster_thresholds_cong)
  qed
  have d: "mset (filter (\<lambda>r. bandwidth_cluster r = A) d30) = mset (filter (\<lambda>r. bandwidth_cluster r = A) d30')
      \<longrightarrow> cluster_thresholds30 d30 A = cluster_thresholds30 d30' A"
    using cluster_thresholds30_cong by blast
  have e: "bandwidth_cluster b30 \<noteq> A
      \<longrightarrow> cluster_thresholds30 (xs30 @ b30 # ys30) A = cluster_thresholds30 (xs30 @ ys30) A
          \<and> cluster_thresholds30 (xs30 @ b30 # b30 # ys30) A = cluster_thresholds30 (xs30 @ ys30) A"
    by (simp add: cluster_thresholds30_lookup)
  from a b c d e show ?thesis by blast
qed

theorem cluster_thresholds_use_own_members_only_witness:
  "cluster_thresholds
     [\<lparr>kategori = [], pendapatan = 100, bandwidth_mbps = 200, cluster_bandwidth = ''MID_BANDWIDTH_GROUP'',
       exclude_upsell = 0, exclude_reason = [], skor_peluang_upsell = 0, skor_peluang_crosssell = 0\<rparr>,
      \<lparr>kategori = [], pendapatan = 7, bandwidth_mbps = 2, cluster_bandwidth = ''LOW_BANDWIDTH_GROUP'',
       exclude_upsell = 0, exclude_reason = [], skor_peluang_upsell = 0, skor_peluang_crosssell = 0\<rparr>]
     ''MID_BANDWIDTH_GROUP''
   = cluster_thresholds
     [\<lparr>kategori = [], pendapatan = 100, bandwidth_mbps = 200, cluster_bandwidth = ''MID_BANDWIDTH_GROUP'',
       exclude_upsell = 0, exclude_reason = [], skor_peluang_upsell = 0, skor_peluang_crosssell = 0\<rparr>]
     ''MID_BANDWIDTH_GROUP''"
proof -
  let ?a = "\<lparr>kategori = [], pendapatan = 100, bandwidth_mbps = 200, cluster_bandwidth = ''MID_BANDWIDTH_GROUP'',
       exclude_upsell = 0, exclude_reason = [], skor_peluang_upsell = 0, skor_peluang_crosssell = 0\<rparr>"
  let ?b = "\<lparr>kategori = [], pendapatan = 7, bandwidth_mbps = 2, cluster_bandwidth = ''LOW_BANDWIDTH_GROUP'',
       exclude_upsell = 0, exclude_reason = [], skor_peluang_upsell = 0, skor_peluang_crosssell = 0\<rparr>"
  have h: "cluster_bandwidth ?b \<noteq> ''MID_BANDWIDTH_GROUP''" by simp
  from h cluster_thresholds_use_own_members_only [of "''MID_BANDWIDTH_GROUP''" _ _ ?b "[?a]" "[]"]
  have "cluster_thresholds ([?a] @ ?b # []) ''MID_BANDWIDTH_GROUP''
        = cluster_thresholds ([?a] @ []) ''MID_BANDWIDTH_GROUP''"
    by blast
  then show ?thesis by simp
qed

text \<open>
  C2, as stated: every non-excluded customer of a cluster with thresholds is mapped, by
  the pair (high revenue, high bandwidth) relative to the cluster's medians, to one of the
  four labels Star, Risk, Sniper, Incubator. In the low-bandwidth cluster the classifier
  looks at the revenue only: two customers that differ in the bandwidth flag get the same
  label, and the label is none of the four.
\<close>

theorem klasifikasi_bw_low_cluster_counterexample:
  "klasifikasi_bw
     (cluster_thresholds
        [\<lparr>kategori = [], pendapatan = 200, bandwidth_mbps = 10, cluster_bandwidth = ''LOW_BANDWIDTH_GROUP'',
          exclude_upsell = 0, exclude_reason = [], skor_peluang_upsell = 0, skor_peluang_crosssell = 0\<rparr>,
         \<lparr>kategori = [], pendapatan = 200, bandwidth_mbps = 2, cluster_bandwidth = ''LOW_BANDWIDTH_GROUP'',
          exclude_upsell = 0, exclude_reason = [], skor_peluang_upsell = 0, skor_peluang_crosssell = 0\<rparr>])
     \<lparr>kategori = [], pendapatan = 200, bandwidth_mbps = 10, cluster_bandwidth = ''LOW_BANDWIDTH_GROUP'',
      exclude_upsell = 0, exclude_reason = [], skor_peluang_upsell = 0, skor_peluang_crosssell = 0\<rparr>
     = (''UMKM_POTENSIAL'', ''CROSS-SELL - Solusi Digital UMKM (Wifi, Cloud)'')
   \<and> klasifikasi_bw
     (cluster_thresholds
        [\<lparr>kategori = [], pendapatan = 200, bandwidth_mbps = 10, cluster_bandwidth = ''LOW_BANDWIDTH_GROUP'',
          exclude_upsell = 0, exclude_reason = [], skor_peluang_upsell = 0, skor_peluang_crosssell = 0\<rparr>,
         \<lparr>kategori = [], pendapatan = 200, bandwidth_mbps = 2, cluster_bandwidth = ''LOW_BANDWIDTH_GROUP'',
          exclude_upsell = 0, exclude_reason = [], skor_peluang_upsell = 0, skor_peluang_crosssell = 0\<rparr>])
     \<lparr>kategori = [], pendapatan = 200, bandwidth_mbps = 2, cluster_bandwidth = ''LOW_BANDWIDTH_GROUP'',
      exclude_upsell = 0, exclude_reason = [], skor_peluang_upsell = 0, skor_peluang_crosssell = 0\<rparr>
     = (''UMKM_POTENSIAL'', ''CROSS-SELL - Solusi Digital UMKM (Wifi, Cloud)'')
   \<and> map_option median_bandwidth
     (cluster_thresholds
        [\<lparr>kategori = [], pendapatan = 200, bandwidth_mbps = 10, cluster_bandwidth = ''LOW_BANDWIDTH_GROUP'',
          exclude_upsell = 0, exclude_reason = [], skor_peluang_upsell = 0, skor_peluang_crosssell = 0\<rparr>,
         \<lparr>kategori = [], pendapatan = 200, bandwidth_mbps = 2, cluster_bandwidth = ''LOW_BANDWIDTH_GROUP'',
          exclude_upsell = 0, exclude_reason = [], skor_peluang_upsell = 0, skor_peluang_crosssell = 0\<rparr>]
        ''LOW_BANDWIDTH_GROUP'') = Some (Some 6)
   \<and> ge_float 10 (Some 6) \<and> \<not> ge_float 2 (Some 6)"
  by code_simp

text \<open>
  C2, amended: for a non-excluded customer of a cluster with thresholds, \<open>klasifikasi_bw\<close>
  compares revenue and bandwidth with the medians of the customer's own cluster. In the
  generic (mid) cluster the pair is mapped to PELANGGAN\_BINTANG / PERTAHANKAN (true, true),
  AREA\_RISIKO / CROSS-SELL (true, false), ZONA\_SNIPER / UPSELL (false, true) and
  INKUBATOR / EDUKASI (false, false). In every cluster but the low one, two customers of
  the cluster get the same label exactly when they agree on both flags (four mutually
  exclusive labels); in the low cluster exactly when they agree on the revenue flag (two
  labels). \<open>assign_strategy\<close> maps the pair to Star / RETAIN, Risk / CROSS-SELL,
  Sniper / UPSELL, Incubator / AUTOMATE, with the fixed thresholds 3,500,000 and 10 in
  place of cluster medians.
\<close>

theorem klasifikasi_bw_quadrants:
  assumes "th c = Some t" and "c \<noteq> ''TIDAK_DIKETAHUI''"
    and "cluster_bandwidth r1 = c" and "cluster_bandwidth r2 = c"
    and "exclude_upsell r1 \<noteq> 1" and "exclude_upsell r2 \<noteq> 1"
  shows
    "(c \<noteq> ''LOW_BANDWIDTH_GROUP'' \<and> c \<noteq> ''HIGH_BANDWIDTH_GROUP'' \<longrightarrow>
        klasifikasi_bw th r1 =
          (if ge_float (pendapatan r1) (median_pendapatan t) then
             (if ge_float (bandwidth_mbps r1) (median_bandwidth t)
              then (''PELANGGAN_BINTANG'', ''PERTAHANKAN - Layanan Premium & Dedicated Support'')
              else (''AREA_RISIKO'', ''CROSS-SELL - Smart Home, PV Rooftop, EV Charging''))
           else
             (if ge_float (bandwidth_mbps r1) (median_bandwidth t)
              then (''ZONA_SNIPER'', ''UPSELL - Upgrade Bandwidth + Managed Services'')
              else (''INKUBATOR'', ''EDUKASI - Demo Produk & Onboarding''))))
     \<and> (c \<noteq> ''LOW_BANDWIDTH_GROUP'' \<longrightarrow>
          (klasifikasi_bw th r1 = klasifikasi_bw th r2 \<longleftrightarrow>
             ge_float (pendapatan r1) (median_pendapatan t) = ge_float (pendapatan r2) (median_pendapatan t)
             \<and> ge_float (bandwidth_mbps r1) (median_bandwidth t)
               = ge_float (bandwidth_mbps r2) (median_bandwidth t)))
     \<and> (c = ''LOW_BANDWIDTH_GROUP'' \<longrightarrow>
          (klasifikasi_bw th r1 = klasifikasi_bw th r2 \<longleftrightarrow>
             ge_float (pendapatan r1) (median_pendapatan t) = ge_float (pendapatan r2) (median_pendapatan t)))
     \<and> assign_strategy co =
          (if revenue co \<ge> 3500000 then
             (if fst (bandwidth_clean co) \<ge> 10 then (''Star'', ''RETAIN'') else (''Risk'', ''CROSS-SELL''))
           else
             (if fst (bandwidth_clean co) \<ge> 10 then (''Sniper'', ''UPSELL'')
              else (''Incubator'', ''AUTOMATE'')))"
proof -
  define hr1 where "hr1 = ge_float (pendapatan r1) (median_pendapatan t)"
  define hb1 where "hb1 = ge_float (bandwidth_mbps r1) (median_bandwidth t)"
  define hr2 where "hr2 = ge_float (pendapatan r2) (median_pendapatan t)"
  define hb2 where "hb2 = ge_float (bandwidth_mbps r2) (median_bandwidth t)"
  have k1: "klasifikasi_bw th r1 =
      (if c = ''LOW_BANDWIDTH_GROUP'' then
         (if hr1 then (''UMKM_POTENSIAL'', ''CROSS-SELL - Solusi Digital UMKM (Wifi, Cloud)'')
          else (''UMKM_PEMULA'', ''EDUKASI - Digitalisasi Bisnis''))
       else if c = ''HIGH_BANDWIDTH_GROUP'' then
         (if hr1 \<and> hb1 then (''ENTERPRISE_BINTANG'', ''PERTAHANKAN - Kontrak Jangka Panjang & SLA'')
          else if hr1 then (''BACKBONE_OPTIMAL'', ''CROSS-SELL - Managed Services & Security'')
          else if hb1 then (''ISP_POTENSI'', ''RENEGOSIASI - Harga Kompetitif & Bundling'')
          else (''ENTERPRISE_BARU'', ''KONSTRUKSI - Bangun Relasi & Trust''))
       else
         (if hr1 \<and> hb1 then (''PELANGGAN_BINTANG'', ''PERTAHANKAN - Layanan Premium & Dedicated Support'')
          else if hr1 then (''AREA_RISIKO'', ''CROSS-SELL - Smart Home, PV Rooftop, EV Charging'')
          else if hb1 then (''ZONA_SNIPER'', ''UPSELL - Upgrade Bandwidth + Managed Services'')
          else (''INKUBATOR'', ''EDUKASI - Demo Produk & Onboarding'')))"
    using assms(1,2,3,5) by (simp add: klasifikasi_bw_def Let_def hr1_def hb1_def)
  have k2: "klasifikasi_bw th r2 =
      (if c = ''LOW_BANDWIDTH_GROUP'' then
         (if hr2 then (''UMKM_POTENSIAL'', ''CROSS-SELL - Solusi Digital UMKM (Wifi, Cloud)'')
          else (''UMKM_PEMULA'', ''EDUKASI - Digitalisasi Bisnis''))
       else if c = ''HIGH_BANDWIDTH_GROUP'' then
         (if hr2 \<and> hb2 then (''ENTERPRISE_BINTANG'', ''PERTAHANKAN - Kontrak Jangka Panjang & SLA'')
          else if hr2 then (''BACKBONE_OPTIMAL'', ''CROSS-SELL - Managed Services & Security'')
          else if hb2 then (''ISP_POTENSI'', ''RENEGOSIASI - Harga Kompetitif & Bundling'')
          else (''ENTERPRISE_BARU'', ''KONSTRUKSI - Bangun Relasi & Trust''))
       else
         (if hr2 \<and> hb2 then (''PELANGGAN_BINTANG'', ''PERTAHANKAN - Layanan Premium & Dedicated Support'')
          else if hr2 then (''AREA_RISIKO'', ''CROSS-SELL - Smart Home, PV Rooftop, EV Charging'')
          else if hb2 then (''ZONA_SNIPER'', ''UPSELL - Upgrade Bandwidth + Managed Services'')
          else (''INKUBATOR'', ''EDUKASI - Demo Produk & Onboarding'')))"
    using assms(1,2,4,6) by (simp add: klasifikasi_bw_def Let_def hr2_def hb2_def)
  have a: "c \<noteq> ''LOW_BANDWIDTH_GROUP'' \<and> c \<noteq> ''HIGH_BANDWIDTH_GROUP'' \<longrightarrow>
        klasifikasi_bw th r1 =
          (if hr1 then
             (if hb1
              then (''PELANGGAN_BINTANG'', ''PERTAHANKAN - Layanan Premium & Dedicated Support'')
              else (''AREA_RISIKO'', ''CROSS-SELL - Smart Home, PV Rooftop, EV Charging''))
           else
             (if hb1
              then (''ZONA_SNIPER'', ''UPSELL - Upgrade Bandwidth + Managed Services'')
              else (''INKUBATOR'', ''EDUKASI - Demo Produk & Onboarding'')))"
    by (simp add: k1)
  have b: "c \<noteq> ''LOW_BANDWIDTH_GROUP'' \<longrightarrow>
          (klasifikasi_bw th r1 = klasifikasi_bw th r2 \<longleftrightarrow> hr1 = hr2 \<and> hb1 = hb2)"
    unfolding k1 k2
    by (cases hr1; cases hb1; cases hr2; cases hb2) simp_all
  have l: "c = ''LOW_BANDWIDTH_GROUP'' \<longrightarrow>
          (klasifikasi_bw th r1 = klasifikasi_bw th r2 \<longleftrightarrow> hr1 = hr2)"
    unfolding k1 k2
    by (cases hr1; cases hr2) simp_all
  have s: "assign_strategy co =
          (if revenue co \<ge> 3500000 then
             (if fst (bandwidth_clean co) \<ge> 10 then (''Star'', ''RETAIN'') else (''Risk'', ''CROSS-SELL''))
           else
             (if fst (bandwidth_clean co) \<ge> 10 then (''Sniper'', ''UPSELL'')
              else (''Incubator'', ''AUTOMATE'')))"
    by (simp add: assign_strategy_def Let_def)
  from a b l s show ?thesis
    unfolding hr1_def hb1_def hr2_def hb2_def by blast
qed

theorem klasifikasi_bw_quadrants_witness:
  "klasifikasi_bw
     (cluster_thresholds
        [\<lparr>kategori = [], pendapatan = 100, bandwidth_mbps = 200, cluster_bandwidth = ''MID_BANDWIDTH_GROUP'',
          exclude_upsell = 0, exclude_reason = [], skor_peluang_upsell = 0, skor_peluang_crosssell = 0\<rparr>,
         \<lparr>kategori = [], pendapatan = 50, bandwidth_mbps = 300, cluster_bandwidth = ''MID_BANDWIDTH_GROUP'',
          exclude_upsell = 0, exclude_reason = [], skor_peluang_upsell = 0, skor_peluang_crosssell = 0\<rparr>])
     \<lparr>kategori = [], pendapatan = 100, bandwidth_mbps = 200, cluster_bandwidth = ''MID_BANDWIDTH_GROUP'',
      exclude_upsell = 0, exclude_reason = [], skor_peluang_upsell = 0, skor_peluang_crosssell = 0\<rparr>
   = (''AREA_RISIKO'', ''CROSS-SELL - Smart Home, PV Rooftop, EV Charging'')"
proof -
  let ?r1 = "\<lparr>kategori = [], pendapatan = 100, bandwidth_mbps = 200, cluster_bandwidth = ''MID_BANDWIDTH_GROUP'',
          exclude_upsell = 0, exclude_reason = [], skor_peluang_upsell = 0, skor_peluang_crosssell = 0\<rparr>"
  let ?r2 = "\<lparr>kategori = [], pendapatan = 50, bandwidth_mbps = 300, cluster_bandwidth = ''MID_BANDWIDTH_GROUP'',
          exclude_upsell = 0, exclude_reason = [], skor_peluang_upsell = 0, skor_peluang_crosssell = 0\<rparr>"
  let ?t = "\<lparr>median_pendapatan = Some 75, median_bandwidth = Some 250, q75_bandwidth = Some 275,
           q25_pendapatan = Some (125 / 2), avg_pendapatan = Some 75\<rparr>"
  have h1: "cluster_thresholds [?r1, ?r2] ''MID_BANDWIDTH_GROUP'' = Some ?t"
    by code_simp
  have h2: "''MID_BANDWIDTH_GROUP'' \<noteq> ''TIDAK_DIKETAHUI''" by simp
  have h3: "cluster_bandwidth ?r1 = ''MID_BANDWIDTH_GROUP''" "cluster_bandwidth ?r2 = ''MID_BANDWIDTH_GROUP''"
    by simp_all
  have h4: "exclude_upsell ?r1 \<noteq> 1" "exclude_upsell ?r2 \<noteq> 1" by simp_all
  have h5: "''MID_BANDWIDTH_GROUP'' \<noteq> ''LOW_BANDWIDTH_GROUP'' \<and> ''MID_BANDWIDTH_GROUP'' \<noteq> ''HIGH_BANDWIDTH_GROUP''"
    by simp
  have g: "ge_float (pendapatan ?r1) (median_pendapatan ?t) \<and> \<not> ge_float (bandwidth_mbps ?r1) (median_bandwidth ?t)"
    by (simp add: ge_float_def)
  note q = klasifikasi_bw_quadrants [of "cluster_thresholds [?r1, ?r2]" "''MID_BANDWIDTH_GROUP''" ?t ?r1 ?r2]
  note k = q [OF h1 h2 h3 h4, THEN conjunct1, THEN mp, OF h5]
  from k g show ?thesis by (simp only: if_True if_False)
qed

text \<open>
  C5: a customer whose cluster has no threshold entry gets the explicit uncategorized
  label, and the classifier neither fails nor compares against NaN or against zero
  thresholds put in place of the missing entry.

  In cvo\_ml\_indonesia\_v21.py an entry is missing exactly for the unknown cluster (the
  calculator skips it) and for a cluster without members; \<open>klasifikasi_bw\<close> then returns
  BELUM\_TERKATEGORI / PERLU\_ANALISIS before it reads any threshold, for the thresholds
  of the frame and for any other dictionary. The medians of an entry are never NaN.

  In cvo\_nbo\_v30.py no customer of the frame is without entry: the calculator gives
  every cluster that occurs in the frame an entry whose medians are not NaN. So the
  default 0 that the classifier would read from a missing entry is never used: the label
  of every row is decided by the medians of the row's own cluster.

  No function of the two classifiers has an error result; the only divisions are by 2 in
  the median and by the number of rows of a cluster that has rows.
\<close>

theorem missing_thresholds_fallback:
  "(cluster_bandwidth row = ''TIDAK_DIKETAHUI'' \<or> th (cluster_bandwidth row) = None \<longrightarrow>
      klasifikasi_bw th row = (''BELUM_TERKATEGORI'', ''PERLU_ANALISIS - Data tidak lengkap''))
   \<and> (cluster_thresholds df (cluster_bandwidth row) = None \<longrightarrow>
      klasifikasi_bw (cluster_thresholds df) row
        = (''BELUM_TERKATEGORI'', ''PERLU_ANALISIS - Data tidak lengkap''))
   \<and> (cluster_thresholds df c = None \<longrightarrow>
        c = ''TIDAK_DIKETAHUI'' \<or> filter (\<lambda>r. cluster_bandwidth r = c) df = [])
   \<and> (cluster_thresholds df c = Some t \<longrightarrow>
        median_pendapatan t \<noteq> None \<and> median_bandwidth t \<noteq> None)
   \<and> (r30 \<in> set d30 \<longrightarrow>
        (\<exists>t30. cluster_thresholds30 d30 (bandwidth_cluster r30) = Some t30
               \<and> median_pendapatan30 t30 \<noteq> None \<and> median_bandwidth30 t30 \<noteq> None))
   \<and> length (create_strategic_matrices30 d30) = length d30
   \<and> (i < length d30 \<longrightarrow>
        create_strategic_matrices30 d30 ! i =
          (let row = d30 ! i;
               cluster = bandwidth_cluster row;
               cluster_data = filter (\<lambda>r. bandwidth_cluster r = cluster) d30;
               high_rev = ge_float (pendapatan30 row) (median (map pendapatan30 cluster_data));
               high_bw = ge_float (bandwidth_mbps30 row) (median (map bandwidth_mbps30 cluster_data))
           in
           if cluster = ''NO_BANDWIDTH'' then
             (if high_rev
              then (''[TARGET] NON-BW HIGH VALUE'', ''CROSS-SELL - Add Connectivity or Digital Solutions'')
              else ('' NON-BW ENTRY'', ''EDUKASI - Introduce Value-Added Services''))
           else if cluster = ''ATM_IOT'' then
             (''[SAT] ATM/IoT'', ''MAINTAIN - Ensure Reliability, No BW Upsell Needed'')
           else if cluster = ''UMKM_SMALL'' then
             (if high_rev
              then (''[MOBILE] UMKM POTENSIAL'', ''UPSELL - Upgrade to Corporate Package'')
              else ('' UMKM PEMULA'', ''EDUKASI - Digital Business Solutions''))
           else if cluster = ''CORPORATE'' then
             (if high_rev \<and> high_bw
              then (''[STAR] CORPORATE BINTANG'', ''PERTAHANKAN - Premium Support & Bundle'')
              else if high_rev \<and> \<not> high_bw
              then (''[TARGET] CORPORATE RISIKO'', ''CROSS-SELL - Smart Solutions, PV, EV'')
              else if \<not> high_rev \<and> high_bw
              then ('' CORPORATE SNIPER'', ''UPSELL - Increase Bandwidth & Add Services'')
              else ('' CORPORATE PEMULA'', ''EDUKASI - Demo & Onboarding''))
           else if cluster = ''ENTERPRISE'' then
             (if high_rev
              then (''[OFFICE] ENTERPRISE BINTANG'', ''PERTAHANKAN - SLA Premium & Consultative'')
              else (''[SAT] ENTERPRISE POTENSI'', ''OPTIMIZE - Efficiency & Cost Management''))
           else ('' UNKNOWN'', ''ANALYZE'')))"
proof -
  have a: "cluster_bandwidth row = ''TIDAK_DIKETAHUI'' \<or> th (cluster_bandwidth row) = None \<longrightarrow>
      klasifikasi_bw th row = (''BELUM_TERKATEGORI'', ''PERLU_ANALISIS - Data tidak lengkap'')"
    by (auto simp: klasifikasi_bw_def Let_def)
  have a': "cluster_thresholds df (cluster_bandwidth row) = None \<longrightarrow>
      klasifikasi_bw (cluster_thresholds df) row
        = (''BELUM_TERKATEGORI'', ''PERLU_ANALISIS - Data tidak lengkap'')"
    by (auto simp: klasifikasi_bw_def Let_def)
  have b: "cluster_thresholds df c = None \<longrightarrow>
        c = ''TIDAK_DIKETAHUI'' \<or> filter (\<lambda>r. cluster_bandwidth r = c) df = []"
    by (simp add: cluster_thresholds_lookup)
  have c: "cluster_thresholds df c = Some t \<longrightarrow>
        median_pendapatan t \<noteq> None \<and> median_bandwidth t \<noteq> None"
    using cluster_thresholds_not_nan by blast
  have d: "r30 \<in> set d30 \<longrightarrow>
        (\<exists>t30. cluster_thresholds30 d30 (bandwidth_cluster r30) = Some t30
               \<and> median_pendapatan30 t30 \<noteq> None \<and> median_bandwidth30 t30 \<noteq> None)"
    using cluster_thresholds30_total by blast
  have e: "length (create_strategic_matrices30 d30) = length d30"
    by (simp add: create_strategic_matrices30_def Let_def)
  have f: "i < length d30 \<longrightarrow>
        create_strategic_matrices30 d30 ! i =
          (let row = d30 ! i;
               cluster = bandwidth_cluster row;
               cluster_data = filter (\<lambda>r. bandwidth_cluster r = cluster) d30;
               high_rev = ge_float (pendapatan30 row) (median (map pendapatan30 cluster_data));
               high_bw = ge_float (bandwidth_mbps30 row) (median (map bandwidth_mbps30 cluster_data))
           in
           if cluster = ''NO_BANDWIDTH'' then
             (if high_rev
              then (''[TARGET] NON-BW HIGH VALUE'', ''CROSS-SELL - Add Connectivity or Digital Solutions'')
              else ('' NON-BW ENTRY'', ''EDUKASI - Introduce Value-Added Services''))
           else if cluster = ''ATM_IOT'' then
             (''[SAT] ATM/IoT'', ''MAINTAIN - Ensure Reliability, No BW Upsell Needed'')
           else if cluster = ''UMKM_SMALL'' then
             (if high_rev
              then (''[MOBILE] UMKM POTENSIAL'', ''UPSELL - Upgrade to Corporate Package'')
              else ('' UMKM PEMULA'', ''EDUKASI - Digital Business Solutions''))
           else if cluster = ''CORPORATE'' then
             (if high_rev \<and> high_bw
              then (''[STAR] CORPORATE BINTANG'', ''PERTAHANKAN - Premium Support & Bundle'')
              else if high_rev \<and> \<not> high_bw
              then (''[TARGET] CORPORATE RISIKO'', ''CROSS-SELL - Smart Solutions, PV, EV'')
              else if \<not> high_rev \<and> high_bw
              then ('' CORPORATE SNIPER'', ''UPSELL - Increase Bandwidth & Add Services'')
              else ('' CORPORATE PEMULA'', ''EDUKASI - Demo & Onboarding''))
           else if cluster = ''ENTERPRISE'' then
             (if high_rev
              then (''[OFFICE] ENTERPRISE BINTANG'', ''PERTAHANKAN - SLA Premium & Consultative'')
              else (''[SAT] ENTERPRISE POTENSI'', ''OPTIMIZE - Efficiency & Cost Management''))
           else ('' UNKNOWN'', ''ANALYZE''))"
  proof
    assume i: "i < length d30"
    then have m: "d30 ! i \<in> set d30" by simp
    note own = cluster_thresholds30_own_entry[OF m]
    show "create_strategic_matrices30 d30 ! i =
          (let row = d30 ! i;
               cluster = bandwidth_cluster row;
               cluster_data = filter (\<lambda>r. bandwidth_cluster r = cluster) d30;
               high_rev = ge_float (pendapatan30 row) (median (map pendapatan30 cluster_data));
               high_bw = ge_float (bandwidth_mbps30 row) (median (map bandwidth_mbps30 cluster_data))
           in
           if cluster = ''NO_BANDWIDTH'' then
             (if high_rev
              then (''[TARGET] NON-BW HIGH VALUE'', ''CROSS-SELL - Add Connectivity or Digital Solutions'')
              else ('' NON-BW ENTRY'', ''EDUKASI - Introduce Value-Added Services''))
           else if cluster = ''ATM_IOT'' then
             (''[SAT] ATM/IoT'', ''MAINTAIN - Ensure Reliability, No BW Upsell Needed'')
           else if cluster = ''UMKM_SMALL'' then
             (if high_rev
              then (''[MOBILE] UMKM POTENSIAL'', ''UPSELL - Upgrade to Corporate Package'')
              else ('' UMKM PEMULA'', ''EDUKASI - Digital Business Solutions''))
           else if cluster = ''CORPORATE'' then
             (if high_rev \<and> high_bw
              then (''[STAR] CORPORATE BINTANG'', ''PERTAHANKAN - Premium Support & Bundle'')
              else if high_rev \<and> \<not> high_bw
              then (''[TARGET] CORPORATE RISIKO'', ''CROSS-SELL - Smart Solutions, PV, EV'')
              else if \<not> high_rev \<and> high_bw
              then ('' CORPORATE SNIPER'', ''UPSELL - Increase Bandwidth & Add Services'')
              else ('' CORPORATE PEMULA'', ''EDUKASI - Demo & Onboarding''))
           else if cluster = ''ENTERPRISE'' then
             (if high_rev
              then (''[OFFICE] ENTERPRISE BINTANG'', ''PERTAHANKAN - SLA Premium & Consultative'')
              else (''[SAT] ENTERPRISE POTENSI'', ''OPTIMIZE - Efficiency & Cost Management''))
           else ('' UNKNOWN'', ''ANALYZE''))"
      unfolding create_strategic_matrices30_def Let_def nth_map[OF i] own option.case
        threshold_bundle30_def
      by (simp only: thresholds30.simps)
  qed
  from a a' b c d e f show ?thesis by blast
qed

theorem missing_thresholds_fallback_witness:
  "klasifikasi_bw
     (cluster_thresholds
        [\<lparr>kategori = [], pendapatan = 100, bandwidth_mbps = 0, cluster_bandwidth = ''TIDAK_DIKETAHUI'',
          exclude_upsell = 0, exclude_reason = [], skor_peluang_upsell = 0, skor_peluang_crosssell = 0\<rparr>,
         \<lparr>kategori = [], pendapatan = 50, bandwidth_mbps = 300, cluster_bandwidth = ''MID_BANDWIDTH_GROUP'',
          exclude_upsell = 0, exclude_reason = [], skor_peluang_upsell = 0, skor_peluang_crosssell = 0\<rparr>])
     \<lparr>kategori = [], pendapatan = 100, bandwidth_mbps = 0, cluster_bandwidth = ''TIDAK_DIKETAHUI'',
      exclude_upsell = 0, exclude_reason = [], skor_peluang_upsell = 0, skor_peluang_crosssell = 0\<rparr>
   = (''BELUM_TERKATEGORI'', ''PERLU_ANALISIS - Data tidak lengkap'')
   \<and> create_strategic_matrices30
        [\<lparr>bandwidth_cluster = ''CORPORATE'', pendapatan30 = 5, bandwidth_mbps30 = 30\<rparr>] ! 0
     = (''[STAR] CORPORATE BINTANG'', ''PERTAHANKAN - Premium Support & Bundle'')
   \<and> (\<exists>t30. cluster_thresholds30
               [\<lparr>bandwidth_cluster = ''CORPORATE'', pendapatan30 = 5, bandwidth_mbps30 = 30\<rparr>]
               ''CORPORATE'' = Some t30
             \<and> median_pendapatan30 t30 \<noteq> None \<and> median_bandwidth30 t30 \<noteq> None)"
proof -
  let ?u = "\<lparr>kategori = [], pendapatan = 100, bandwidth_mbps = 0, cluster_bandwidth = ''TIDAK_DIKETAHUI'',
      exclude_upsell = 0, exclude_reason = [], skor_peluang_upsell = 0, skor_peluang_crosssell = 0\<rparr>"
  let ?m = "\<lparr>kategori = [], pendapatan = 50, bandwidth_mbps = 300, cluster_bandwidth = ''MID_BANDWIDTH_GROUP'',
      exclude_upsell = 0, exclude_reason = [], skor_peluang_upsell = 0, skor_peluang_crosssell = 0\<rparr>"
  let ?c = "\<lparr>bandwidth_cluster = ''CORPORATE'', pendapatan30 = 5, bandwidth_mbps30 = 30\<rparr>"
  note t = missing_thresholds_fallback [of ?u _ "[?u, ?m]" _ _ ?c "[?c]" 0]
  have h1: "cluster_thresholds [?u, ?m] (cluster_bandwidth ?u) = None"
    by code_simp
  have h2: "(0 :: nat) < length [?c]" by simp
  note v21 = t [THEN conjunct2, THEN conjunct1, THEN mp, OF h1]
  note v30 = t [THEN conjunct2, THEN conjunct2, THEN conjunct2, THEN conjunct2, THEN conjunct2,
                THEN conjunct2, THEN mp, OF h2]
  have e: "median (map pendapatan30 [?c]) = Some 5 \<and> median (map bandwidth_mbps30 [?c]) = Some 30"
    by code_simp
  have v: "create_strategic_matrices30 [?c] ! 0
     = (''[STAR] CORPORATE BINTANG'', ''PERTAHANKAN - Premium Support & Bundle'')"
    using v30 e by (simp add: Let_def ge_float_def)
  have h3: "?c \<in> set [?c]" by simp
  note d = t [THEN conjunct2, THEN conjunct2, THEN conjunct2, THEN conjunct2, THEN conjunct1,
              THEN mp, OF h3]
  from d have d': "\<exists>t30. cluster_thresholds30 [?c] ''CORPORATE'' = Some t30
             \<and> median_pendapatan30 t30 \<noteq> None \<and> median_bandwidth30 t30 \<noteq> None"
    by (simp del: not_None_eq)
  from v21 v d' show ?thesis by (intro conjI)
qed

section \<open>Claims about the NBO score\<close>



text \<open>
  C10: the score is at least 25. The factors are at least 3, 5, 2, 5, 0 (co-occurrence),
  5, 2 and 3, and the final clamp at 100 does not lower a sum of 25. The function returns
  a score whenever the number of companies is positive (it is the number of distinct
  company names of the frame being scored); with 0 companies the division in the
  co-occurrence boost can raise, and then no score is returned.
\<close>

theorem calculate_nbo_score_at_least_25:
  "(0 < n \<longrightarrow> (\<exists>s. calculate_nbo_score_v4_2 c p co n = Inr s \<and> 25 \<le> s))
   \<and> (calculate_nbo_score_v4_2 c p co n = Inr s' \<longrightarrow> 25 \<le> s')
   \<and> 3 \<le> factor_tier c p \<and> 5 \<le> factor_category c p
   \<and> 2 \<le> factor_bandwidth c p \<and> 5 \<le> factor_industry c p
   \<and> (factor_cooccurrence c p co n = Inr f5 \<longrightarrow> 0 \<le> f5)
   \<and> factor_regional = 5
   \<and> 2 \<le> factor_affordability c p \<and> 3 \<le> factor_tenure c p"
proof -
  have r: "calculate_nbo_score_v4_2 c p co n = Inr s' \<longrightarrow> 25 \<le> s'"
    using calculate_nbo_score_bounds by blast
  have t: "0 < n \<longrightarrow> (\<exists>s. calculate_nbo_score_v4_2 c p co n = Inr s \<and> 25 \<le> s)"
  proof
    assume "0 < n"
    then obtain s where s: "calculate_nbo_score_v4_2 c p co n = Inr s"
      using calculate_nbo_score_returns by blast
    from calculate_nbo_score_bounds[OF s] have "25 \<le> s" by simp
    with s show "\<exists>s. calculate_nbo_score_v4_2 c p co n = Inr s \<and> 25 \<le> s" by blast
  qed
  have f: "factor_cooccurrence c p co n = Inr f5 \<longrightarrow> 0 \<le> f5"
    using factor_cooccurrence_bounds by blast
  have e: "factor_regional = 5" by (simp add: factor_regional_def)
  from r t f e factor_tier_bounds[of c p] factor_category_bounds[of c p]
    factor_bandwidth_bounds[of c p] factor_industry_bounds[of c p]
    factor_affordability_bounds[of c p] factor_tenure_bounds[of c p]
  show ?thesis by blast
qed

theorem calculate_nbo_score_at_least_25_witness:
  "calculate_nbo_score_v4_2 company_min product_min Map.empty 1 = Inr 25
   \<and> (\<exists>s. calculate_nbo_score_v4_2 company_min product_min Map.empty 1 = Inr s \<and> 25 \<le> s)"
proof -
  have h: "(0 :: nat) < 1" by simp
  have e: "calculate_nbo_score_v4_2 company_min product_min Map.empty 1 = Inr 25" by code_simp
  note t = calculate_nbo_score_at_least_25 [of 1 company_min product_min Map.empty, THEN conjunct1, THEN mp, OF h]
  from e t show ?thesis by (rule conjI)
qed

end
